theory Spec2Isabelle
  imports Complex_Main
begin

section \<open>Numbers, errors and array reads\<close>

text \<open>
  The engine of \<^verbatim>\<open>src/lib/transform.ts\<close> computes with JavaScript numbers.  The
  inputs and the returned transform are real numbers here: rounding is not modelled, so
  only properties that do not depend on it are stated.  Inside \<open>calculateBoundedPan\<close>,
  where the code divides by the recording geometry and the zoom level without a test, the
  values are JavaScript numbers with their infinities and NaN (type \<open>jsnum\<close> below), as
  \<^verbatim>\<open>Math.max\<close> and \<^verbatim>\<open>Math.min\<close> can clamp an infinity back to a finite pan.  A pan
  with a component that is still infinite or NaN is the outcome \<open>NonFinite\<close>: the
  translate the code returns from it has a NaN component.  Reading \<open>metadata[i].field\<close>
  at an index outside the array throws a TypeError in JavaScript; that is the outcome
  \<open>TypeError\<close>.  Array indices are integers (\<open>-1\<close> stands for "none").
\<close>

datatype error = TypeError | NonFinite

definition bindE :: "error + 'a \<Rightarrow> ('a \<Rightarrow> error + 'b) \<Rightarrow> error + 'b" where
  "bindE m f = (case m of Inl e \<Rightarrow> Inl e | Inr v \<Rightarrow> f v)"

text \<open>
  The three divisions outside \<open>calculateBoundedPan\<close>: by \<open>timeDiff\<close> in the smoother,
  under the test \<^verbatim>\<open>timeDiff > 0\<close>, and by \<open>transitionDuration\<close> in the zoom-in and the
  zoom-out phase, which an active region enters only with a positive transition duration.
  Their divisor is never zero when \<open>calculateZoomTransform\<close> reaches them (lemmas
  \<open>getSmoothedMousePosition_total\<close>, \<open>regionTransform_zoomIn\<close>, \<open>zoomOut_td_pos\<close>).
\<close>

definition js_div :: "real \<Rightarrow> real \<Rightarrow> error + real" where
  "js_div a b = (if b = 0 then Inl NonFinite else Inr (a / b))"

text \<open>
  JavaScript numbers without rounding: a real number, \<open>+Infinity\<close>, \<open>-Infinity\<close> or NaN,
  with the arithmetic of IEEE 754 on them.  The two zeros are one: a zero divisor is taken
  to be \<open>+0\<close>, as a geometry or zoom level of \<open>0\<close> is.
\<close>

datatype jsnum = Fin real | PInf | NInf | NaN

instantiation jsnum :: "{plus, uminus, minus, times, inverse}"
begin

fun plus_jsnum :: "jsnum \<Rightarrow> jsnum \<Rightarrow> jsnum" where
  "plus_jsnum (Fin a) (Fin b) = Fin (a + b)"
| "plus_jsnum NaN y = NaN"
| "plus_jsnum x NaN = NaN"
| "plus_jsnum PInf NInf = NaN"
| "plus_jsnum NInf PInf = NaN"
| "plus_jsnum PInf y = PInf"
| "plus_jsnum x PInf = PInf"
| "plus_jsnum NInf y = NInf"
| "plus_jsnum x NInf = NInf"

fun uminus_jsnum :: "jsnum \<Rightarrow> jsnum" where
  "uminus_jsnum (Fin a) = Fin (- a)"
| "uminus_jsnum PInf = NInf"
| "uminus_jsnum NInf = PInf"
| "uminus_jsnum NaN = NaN"

definition minus_jsnum :: "jsnum \<Rightarrow> jsnum \<Rightarrow> jsnum" where
  "minus_jsnum x y = (x::jsnum) + (- y)"

fun times_jsnum :: "jsnum \<Rightarrow> jsnum \<Rightarrow> jsnum" where
  "times_jsnum (Fin a) (Fin b) = Fin (a * b)"
| "times_jsnum NaN y = NaN"
| "times_jsnum x NaN = NaN"
| "times_jsnum PInf (Fin b) = (if b > 0 then PInf else if b < 0 then NInf else NaN)"
| "times_jsnum NInf (Fin b) = (if b > 0 then NInf else if b < 0 then PInf else NaN)"
| "times_jsnum (Fin a) PInf = (if a > 0 then PInf else if a < 0 then NInf else NaN)"
| "times_jsnum (Fin a) NInf = (if a > 0 then NInf else if a < 0 then PInf else NaN)"
| "times_jsnum PInf PInf = PInf"
| "times_jsnum NInf NInf = PInf"
| "times_jsnum PInf NInf = NInf"
| "times_jsnum NInf PInf = NInf"

fun divide_jsnum :: "jsnum \<Rightarrow> jsnum \<Rightarrow> jsnum" where
  "divide_jsnum (Fin a) (Fin b) =
     (if b \<noteq> 0 then Fin (a / b)
      else if a > 0 then PInf else if a < 0 then NInf else NaN)"
| "divide_jsnum NaN y = NaN"
| "divide_jsnum x NaN = NaN"
| "divide_jsnum PInf (Fin b) = (if b \<ge> 0 then PInf else NInf)"
| "divide_jsnum NInf (Fin b) = (if b \<ge> 0 then NInf else PInf)"
| "divide_jsnum (Fin a) PInf = Fin 0"
| "divide_jsnum (Fin a) NInf = Fin 0"
| "divide_jsnum x y = NaN"

definition inverse_jsnum :: "jsnum \<Rightarrow> jsnum" where
  "inverse_jsnum x = divide (Fin 1) (x::jsnum)"

instance ..

end

text \<open>\<^verbatim>\<open>Math.max\<close> and \<^verbatim>\<open>Math.min\<close> of two numbers: NaN when an argument is NaN.\<close>

fun js_max :: "jsnum \<Rightarrow> jsnum \<Rightarrow> jsnum" where
  "js_max NaN y = NaN"
| "js_max x NaN = NaN"
| "js_max PInf y = PInf"
| "js_max x PInf = PInf"
| "js_max NInf y = y"
| "js_max x NInf = x"
| "js_max (Fin a) (Fin b) = Fin (max a b)"

fun js_min :: "jsnum \<Rightarrow> jsnum \<Rightarrow> jsnum" where
  "js_min NaN y = NaN"
| "js_min x NaN = NaN"
| "js_min NInf y = NInf"
| "js_min x NInf = NInf"
| "js_min PInf y = y"
| "js_min x PInf = x"
| "js_min (Fin a) (Fin b) = Fin (min a b)"

definition get :: "'a list \<Rightarrow> int \<Rightarrow> error + 'a" where
  "get xs i = (if 0 \<le> i \<and> i < int (length xs) then Inr (xs ! nat i) else Inl TypeError)"

text \<open>\<^verbatim>\<open>lerp(start, end, t)\<close>.\<close>

definition lerp :: "real \<Rightarrow> real \<Rightarrow> real \<Rightarrow> real" where
  "lerp start finish t = start * (1 - t) + finish * t"

section \<open>Data model\<close>

text \<open>
  \<^verbatim>\<open>MetaDataItem\<close>: the fields the engine reads (\<open>x\<close> and \<open>y\<close> are named
  \<open>m_x\<close> and \<open>m_y\<close>).
\<close>

record MetaDataItem =
  timestamp :: real
  m_x :: real
  m_y :: real

text \<open>An object \<^verbatim>\<open>{ x, y }\<close>.\<close>

record point =
  px :: real
  py :: real

text \<open>An object \<^verbatim>\<open>{ tx, ty }\<close>.\<close>

record pan =
  tx :: real
  ty :: real

text \<open>An object \<^verbatim>\<open>{ width, height }\<close>.\<close>

record geometry =
  width :: real
  height :: real

section \<open>Temporal index\<close>

text \<open>The \<^verbatim>\<open>while (left <= right)\<close> loop of \<^verbatim>\<open>findLastMetadataIndex\<close>.\<close>

function findLast_loop :: "MetaDataItem list \<Rightarrow> real \<Rightarrow> int \<Rightarrow> int \<Rightarrow> int \<Rightarrow> error + int" where
  "findLast_loop metadata currentTime left right result =
     (if left \<le> right then
        (let mid = (left + right) div 2 in
         case get metadata mid of
           Inl e \<Rightarrow> Inl e
         | Inr m \<Rightarrow>
             if timestamp m \<le> currentTime
             then findLast_loop metadata currentTime (mid + 1) right mid
             else findLast_loop metadata currentTime left (mid - 1) result)
      else Inr result)"
  by pat_completeness auto
termination
  by (relation "measure (\<lambda>(metadata, currentTime, left, right, result). nat (right - left + 1))") auto

definition findLastMetadataIndex :: "MetaDataItem list \<Rightarrow> real \<Rightarrow> error + int" where
  "findLastMetadataIndex metadata currentTime =
     (if length metadata = 0 then Inr (- 1)
      else findLast_loop metadata currentTime 0 (int (length metadata) - 1) (- 1))"

section \<open>Cursor position smoother\<close>

text \<open>
  \<^verbatim>\<open>DEFAULTS.CAMERA.MOVEMENT\<close> of \<^verbatim>\<open>./constants\<close>: the three constants the smoother
  reads.  Their values are a parameter \<open>D\<close> of the model.
\<close>

record DEFAULTS =
  SMOOTHING_FACTOR :: real
  DEAD_ZONE :: real
  SMOOTHING_WINDOW :: real

text \<open>
  The \<^verbatim>\<open>for (let i = startIndex + 1; i <= endIndex; i++)\<close> loop of
  \<^verbatim>\<open>getSmoothedMousePosition\<close>, on the pair \<open>(smoothedX, smoothedY)\<close>.
\<close>

function smooth_loop ::
  "MetaDataItem list \<Rightarrow> int \<Rightarrow> int \<Rightarrow> real \<Rightarrow> real \<Rightarrow> real \<Rightarrow> real \<Rightarrow> error + (real \<times> real)" where
  "smooth_loop metadata i endIndex smoothingFactor deadZone smoothedX smoothedY =
     (if i \<le> endIndex then
        (case get metadata i of
           Inl e \<Rightarrow> Inl e
         | Inr m \<Rightarrow>
             (let currentX = m_x m;
                  currentY = m_y m;
                  deltaX = currentX - smoothedX;
                  deltaY = currentY - smoothedY;
                  movementDistance = sqrt (deltaX * deltaX + deltaY * deltaY);
                  effectiveSmoothingFactor =
                    (if movementDistance > deadZone then smoothingFactor else smoothingFactor * 0.3)
              in smooth_loop metadata (i + 1) endIndex smoothingFactor deadZone
                   (lerp smoothedX currentX effectiveSmoothingFactor)
                   (lerp smoothedY currentY effectiveSmoothingFactor)))
      else Inr (smoothedX, smoothedY))"
  by pat_completeness auto
termination
  by (relation "measure (\<lambda>(metadata, i, endIndex, sf, dz, sx, sy). nat (endIndex + 1 - i))") auto

text \<open>
  The warm-up anchor of the smoother: \<open>startIndex\<close> as it stands when the test
  \<^verbatim>\<open>startIndex >= metadata.length\<close> is reached.
\<close>

definition smoothStartIndex :: "DEFAULTS \<Rightarrow> MetaDataItem list \<Rightarrow> real \<Rightarrow> error + int" where
  "smoothStartIndex D metadata targetTime =
     (let startTime = max 0 (targetTime - SMOOTHING_WINDOW D) in
      bindE (findLastMetadataIndex metadata startTime) (\<lambda>startIndex.
      Inr (if startIndex < 0 then 0 else startIndex)))"

definition getSmoothedMousePosition ::
  "DEFAULTS \<Rightarrow> MetaDataItem list \<Rightarrow> real \<Rightarrow> real \<Rightarrow> real \<Rightarrow> error + point option" where
  "getSmoothedMousePosition D metadata targetTime smoothingFactor deadZone =
     bindE (findLastMetadataIndex metadata targetTime) (\<lambda>endIndex.
     if endIndex < 0 then Inr None
     else
       bindE (smoothStartIndex D metadata targetTime) (\<lambda>startIndex.
       if startIndex \<ge> int (length metadata) then Inr None
       else
         bindE (get metadata startIndex) (\<lambda>m0.
         bindE (smooth_loop metadata (startIndex + 1) endIndex smoothingFactor deadZone
                  (m_x m0) (m_y m0)) (\<lambda>(smoothedX, smoothedY).
         if endIndex + 1 < int (length metadata) then
           bindE (get metadata (endIndex + 1)) (\<lambda>nextEvent.
           bindE (get metadata endIndex) (\<lambda>lastEvent.
           let timeDiff = timestamp nextEvent - timestamp lastEvent in
           if timeDiff > 0 then
             bindE (js_div (targetTime - timestamp lastEvent) timeDiff) (\<lambda>progress.
             let finalX = lerp smoothedX (m_x nextEvent) smoothingFactor;
                 finalY = lerp smoothedY (m_y nextEvent) smoothingFactor
             in Inr (Some \<lparr>px = lerp smoothedX finalX progress,
                            py = lerp smoothedY finalY progress\<rparr>))
           else Inr (Some \<lparr>px = smoothedX, py = smoothedY\<rparr>)))
         else Inr (Some \<lparr>px = smoothedX, py = smoothedY\<rparr>)))))"

section \<open>Bounded pan solver\<close>

text \<open>
  The object \<^verbatim>\<open>{ tx, ty }\<close> that \<open>calculateBoundedPan\<close> returns, when both components
  are finite.
\<close>

fun finitePan :: "jsnum \<Rightarrow> jsnum \<Rightarrow> error + pan" where
  "finitePan (Fin a) (Fin b) = Inr \<lparr>tx = a, ty = b\<rparr>"
| "finitePan x y = Inl NonFinite"

definition calculateBoundedPan ::
  "point option \<Rightarrow> point \<Rightarrow> real \<Rightarrow> geometry \<Rightarrow> geometry \<Rightarrow> error + pan" where
  "calculateBoundedPan mousePos origin zoomLevel recordingGeometry frameContentDimensions =
     (case mousePos of
        None \<Rightarrow> Inr \<lparr>tx = 0, ty = 0\<rparr>
      | Some mp \<Rightarrow>
          (let nsmx = Fin (px mp) / Fin (width recordingGeometry);
               nsmy = Fin (py mp) / Fin (height recordingGeometry);
               targetFinalPanX =
                 (Fin 0.5 - ((nsmx - Fin (px origin)) * Fin zoomLevel + Fin (px origin)))
                   * Fin (width frameContentDimensions);
               targetFinalPanY =
                 (Fin 0.5 - ((nsmy - Fin (py origin)) * Fin zoomLevel + Fin (py origin)))
                   * Fin (height frameContentDimensions);
               targetTranslateX = targetFinalPanX / Fin zoomLevel;
               targetTranslateY = targetFinalPanY / Fin zoomLevel;
               maxTx = Fin (px origin * width frameContentDimensions * (zoomLevel - 1))
                         / Fin zoomLevel;
               minTx = Fin (- ((1 - px origin) * width frameContentDimensions * (zoomLevel - 1)))
                         / Fin zoomLevel;
               maxTy = Fin (py origin * height frameContentDimensions * (zoomLevel - 1))
                         / Fin zoomLevel;
               minTy = Fin (- ((1 - py origin) * height frameContentDimensions * (zoomLevel - 1)))
                         / Fin zoomLevel;
               tx = js_max minTx (js_min maxTx targetTranslateX);
               ty = js_max minTy (js_min maxTy targetTranslateY)
           in finitePan tx ty))"

definition getTransformOrigin :: "real \<Rightarrow> real \<Rightarrow> point" where
  "getTransformOrigin targetX targetY = \<lparr>px = targetX + 0.5, py = targetY + 0.5\<rparr>"

section \<open>Zoom transform state machine\<close>

text \<open>\<^verbatim>\<open>ZoomRegion\<close> of \<^verbatim>\<open>../types\<close>: the fields the engine destructures.\<close>

record ZoomRegion =
  startTime :: real
  duration :: real
  zoomLevel :: real
  targetX :: real
  targetY :: real
  mode :: string
  easing :: string
  transitionDuration :: real

text \<open>
  \<^verbatim>\<open>EASING_MAP\<close> of \<^verbatim>\<open>./easing\<close> is a parameter \<open>EM\<close> of the model: its
  entries by name, and the entry \<^verbatim>\<open>EASING_MAP.Balanced\<close> that
  \<^verbatim>\<open>EASING_MAP[easing] || EASING_MAP.Balanced\<close> falls back to.
\<close>

record EASING_MAP =
  entries :: "string \<Rightarrow> (real \<Rightarrow> real) option"
  Balanced :: "real \<Rightarrow> real"

definition easingFn :: "EASING_MAP \<Rightarrow> string \<Rightarrow> real \<Rightarrow> real" where
  "easingFn EM name = (case entries EM name of Some f \<Rightarrow> f | None \<Rightarrow> Balanced EM)"

text \<open>
  The string \<^verbatim>\<open>`${a}% ${b}%`\<close> is represented by \<open>Percent a b\<close>, so
  \<^verbatim>\<open>'50% 50%'\<close> is \<open>Percent 50 50\<close>.
\<close>

datatype css_origin = Percent real real

record TransformResult =
  scale :: real
  translateX :: real
  translateY :: real
  transformOrigin :: css_origin

text \<open>The module-level variables that persist between calls.\<close>

record EngineState =
  previousPanX :: real
  previousPanY :: real
  lastPanUpdateTime :: real

definition PAN_SMOOTHING_FACTOR :: real where
  "PAN_SMOOTHING_FACTOR = 0.1"

text \<open>
  The body of \<^verbatim>\<open>calculateZoomTransform\<close> from the destructuring of \<open>activeRegion\<close>
  on, for the active region \<open>r\<close>.  The three pan targets are computed when the guard
  holds, and a division by zero inside one of them matters only in the phase that reads it.
\<close>

definition regionTransform ::
  "DEFAULTS \<Rightarrow> EASING_MAP \<Rightarrow> real \<Rightarrow> ZoomRegion \<Rightarrow> MetaDataItem list \<Rightarrow> geometry \<Rightarrow> geometry
     \<Rightarrow> EngineState \<Rightarrow> error + (TransformResult \<times> EngineState)" where
  "regionTransform D EM currentTime r metadata recordingGeometry frameContentDimensions st =
     (let zoomOutStartTime = startTime r + duration r - transitionDuration r;
          zoomInEndTime = startTime r + transitionDuration r;
          fixedOrigin = getTransformOrigin (targetX r) (targetY r);
          origin = Percent (px fixedOrigin * 100) (py fixedOrigin * 100)
      in
      bindE
        (if mode r = ''auto'' \<and> length metadata > 0 \<and> width recordingGeometry > 0 then
           bindE (getSmoothedMousePosition D metadata zoomInEndTime
                    (SMOOTHING_FACTOR D) (DEAD_ZONE D)) (\<lambda>zoomInEndMousePos.
           bindE (getSmoothedMousePosition D metadata currentTime
                    (SMOOTHING_FACTOR D) (DEAD_ZONE D)) (\<lambda>liveMousePos.
           bindE (getSmoothedMousePosition D metadata zoomOutStartTime
                    (SMOOTHING_FACTOR D) (DEAD_ZONE D)) (\<lambda>finalMousePos.
           Inr (calculateBoundedPan zoomInEndMousePos fixedOrigin (zoomLevel r)
                  recordingGeometry frameContentDimensions,
                calculateBoundedPan liveMousePos fixedOrigin (zoomLevel r)
                  recordingGeometry frameContentDimensions,
                calculateBoundedPan finalMousePos fixedOrigin (zoomLevel r)
                  recordingGeometry frameContentDimensions))))
         else Inr (Inr \<lparr>tx = 0, ty = 0\<rparr>, Inr \<lparr>tx = 0, ty = 0\<rparr>, Inr \<lparr>tx = 0, ty = 0\<rparr>))
        (\<lambda>(initialPan, livePan, finalPan).
      bindE
        (if currentTime \<ge> startTime r \<and> currentTime < zoomInEndTime then
           bindE (js_div (currentTime - startTime r) (transitionDuration r)) (\<lambda>p.
           let t = easingFn EM (easing r) p;
               currentScale = lerp 1 (zoomLevel r) t
           in
           bindE initialPan (\<lambda>ip.
           let currentTranslateX = lerp 0 (tx ip) t;
               currentTranslateY = lerp 0 (ty ip) t
           in Inr (currentScale, currentTranslateX, currentTranslateY,
                   st\<lparr>previousPanX := currentTranslateX, previousPanY := currentTranslateY\<rparr>)))
         else if currentTime \<ge> zoomInEndTime \<and> currentTime < zoomOutStartTime then
           (let currentScale = zoomLevel r;
                timeDelta = currentTime - lastPanUpdateTime st;
                alpha = (if timeDelta > 0 then (timeDelta / 0.016) * PAN_SMOOTHING_FACTOR else 0);
                safeAlpha = max 0 (min 1 alpha)
            in
            bindE livePan (\<lambda>lp.
            let currentTranslateX = lerp (previousPanX st) (tx lp) safeAlpha;
                currentTranslateY = lerp (previousPanY st) (ty lp) safeAlpha
            in Inr (currentScale, currentTranslateX, currentTranslateY,
                    st\<lparr>previousPanX := currentTranslateX, previousPanY := currentTranslateY\<rparr>)))
         else if currentTime \<ge> zoomOutStartTime \<and> currentTime \<le> startTime r + duration r then
           bindE (js_div (currentTime - zoomOutStartTime) (transitionDuration r)) (\<lambda>p.
           let t = easingFn EM (easing r) p;
               currentScale = lerp (zoomLevel r) 1 t
           in
           bindE
             (if mode r = ''auto'' \<and> length metadata > 0 \<and> width recordingGeometry > 0 then
                bindE (getSmoothedMousePosition D metadata currentTime
                         (SMOOTHING_FACTOR D) (DEAD_ZONE D)) (\<lambda>liveMousePos.
                bindE (calculateBoundedPan liveMousePos fixedOrigin currentScale
                         recordingGeometry frameContentDimensions) (\<lambda>dynamicPan.
                let cursorInfluence = (if t \<le> 0.05 then 1 - (t / 0.05) else 0)
                in Inr (tx dynamicPan * cursorInfluence, ty dynamicPan * cursorInfluence)))
              else
                bindE finalPan (\<lambda>fp. Inr (lerp (tx fp) 0 t, lerp (ty fp) 0 t)))
             (\<lambda>(targetTx, targetTy).
           let timeDelta = currentTime - lastPanUpdateTime st;
               baseAlpha = (if timeDelta > 0 then (timeDelta / 0.016) * PAN_SMOOTHING_FACTOR else 0);
               convergence = t ^ 4;
               fluidAlpha = lerp (max 0 (min 1 baseAlpha)) 1 convergence;
               currentTranslateX = lerp (previousPanX st) targetTx fluidAlpha;
               currentTranslateY = lerp (previousPanY st) targetTy fluidAlpha
           in Inr (currentScale, currentTranslateX, currentTranslateY,
                   st\<lparr>previousPanX := currentTranslateX, previousPanY := currentTranslateY\<rparr>)))
         else Inr (1, 0, 0, st))
        (\<lambda>(currentScale, currentTranslateX, currentTranslateY, st2).
      Inr (\<lparr>scale = currentScale, translateX = currentTranslateX,
             translateY = currentTranslateY, transformOrigin = origin\<rparr>,
           st2\<lparr>lastPanUpdateTime := currentTime\<rparr>))))"

text \<open>
  The region that \<^verbatim>\<open>Object.values(zoomRegions).find(...)\<close> selects.
  \<^verbatim>\<open>Object.values\<close> lists the regions in the order of the mapping's keys, so the
  mapping is an association list.
\<close>

definition findActiveRegion :: "real \<Rightarrow> (string \<times> ZoomRegion) list \<Rightarrow> ZoomRegion option" where
  "findActiveRegion currentTime zoomRegions =
     find (\<lambda>r. currentTime \<ge> startTime r \<and> currentTime < startTime r + duration r)
       (map snd zoomRegions)"

text \<open>
  \<^verbatim>\<open>calculateZoomTransform\<close>, with the module-level state as an argument and a
  result.
\<close>

definition calculateZoomTransform ::
  "DEFAULTS \<Rightarrow> EASING_MAP \<Rightarrow> real \<Rightarrow> (string \<times> ZoomRegion) list \<Rightarrow> MetaDataItem list
     \<Rightarrow> geometry \<Rightarrow> geometry \<Rightarrow> EngineState \<Rightarrow> error + (TransformResult \<times> EngineState)" where
  "calculateZoomTransform D EM currentTime zoomRegions metadata recordingGeometry
       frameContentDimensions st =
     (let activeRegion = findActiveRegion currentTime zoomRegions;
          defaultTransform =
            \<lparr>scale = 1, translateX = 0, translateY = 0, transformOrigin = Percent 50 50\<rparr>;
          st1 =
            (if activeRegion = None \<or> \<bar>currentTime - lastPanUpdateTime st\<bar> > 0.5 then
               (if activeRegion \<noteq> None then st\<lparr>previousPanX := 0, previousPanY := 0\<rparr> else st)
             else st)
      in
      case activeRegion of
        None \<Rightarrow> Inr (defaultTransform, st1)
      | Some r \<Rightarrow>
          regionTransform D EM currentTime r metadata recordingGeometry frameContentDimensions st1)"

section \<open>Notions used to state the properties of the engine\<close>

text \<open>
  The smoothed cursor position at a time, with the default smoothing factor and dead zone,
  as the engine asks for it.  The smoother always returns (lemma
  \<open>getSmoothedMousePosition_total\<close> below), so this is its result.
\<close>

definition smoothedPos :: "DEFAULTS \<Rightarrow> MetaDataItem list \<Rightarrow> real \<Rightarrow> point option" where
  "smoothedPos D metadata time =
     (case getSmoothedMousePosition D metadata time (SMOOTHING_FACTOR D) (DEAD_ZONE D) of
        Inr mp \<Rightarrow> mp
      | Inl e \<Rightarrow> None)"

text \<open>The guard \<^verbatim>\<open>mode === 'auto' && metadata.length > 0 && recordingGeometry.width > 0\<close>.\<close>

definition panGuard :: "ZoomRegion \<Rightarrow> MetaDataItem list \<Rightarrow> geometry \<Rightarrow> bool" where
  "panGuard r metadata recordingGeometry =
     (mode r = ''auto'' \<and> length metadata > 0 \<and> width recordingGeometry > 0)"

text \<open>The transform origin of a region, as a point and as the returned string.\<close>

definition fixedOriginOf :: "ZoomRegion \<Rightarrow> point" where
  "fixedOriginOf r = getTransformOrigin (targetX r) (targetY r)"

definition originOf :: "ZoomRegion \<Rightarrow> css_origin" where
  "originOf r = Percent (px (fixedOriginOf r) * 100) (py (fixedOriginOf r) * 100)"

text \<open>
  The bounded pan of the smoothed cursor position at a time and for a zoom level when the
  guard holds, the zero pan otherwise.
\<close>

definition panTarget ::
  "DEFAULTS \<Rightarrow> ZoomRegion \<Rightarrow> MetaDataItem list \<Rightarrow> geometry \<Rightarrow> geometry \<Rightarrow> real \<Rightarrow> real
     \<Rightarrow> error + pan" where
  "panTarget D r metadata recordingGeometry frameContentDimensions time zl =
     (if panGuard r metadata recordingGeometry
      then calculateBoundedPan (smoothedPos D metadata time) (fixedOriginOf r) zl
             recordingGeometry frameContentDimensions
      else Inr \<lparr>tx = 0, ty = 0\<rparr>)"

text \<open>The clamped smoothing factor \<open>safeAlpha\<close> of the hold phase (\<open>baseAlpha\<close>, clamped, in zoom-out).\<close>

definition safeAlphaOf :: "real \<Rightarrow> real \<Rightarrow> real" where
  "safeAlphaOf currentTime lastTime =
     max 0 (min 1 (if currentTime - lastTime > 0
                   then ((currentTime - lastTime) / 0.016) * PAN_SMOOTHING_FACTOR else 0))"

text \<open>The carryover state after the seek test at the head of \<open>calculateZoomTransform\<close>, for an active region.\<close>

definition afterSeekTest :: "real \<Rightarrow> EngineState \<Rightarrow> EngineState" where
  "afterSeekTest currentTime st =
     (if \<bar>currentTime - lastPanUpdateTime st\<bar> > 0.5
      then st\<lparr>previousPanX := 0, previousPanY := 0\<rparr> else st)"

text \<open>The eased progress of the zoom-out phase.\<close>

definition zoomOutProgress :: "EASING_MAP \<Rightarrow> ZoomRegion \<Rightarrow> real \<Rightarrow> real" where
  "zoomOutProgress EM r currentTime =
     easingFn EM (easing r)
       ((currentTime - (startTime r + duration r - transitionDuration r)) / transitionDuration r)"

text \<open>\<open>cursorInfluence\<close> and \<open>fluidAlpha\<close> of the zoom-out phase, as functions of the eased progress.\<close>

definition cursorInfluenceOf :: "real \<Rightarrow> real" where
  "cursorInfluenceOf t = (if t \<le> 0.05 then 1 - (t / 0.05) else 0)"

definition fluidAlphaOf :: "real \<Rightarrow> real \<Rightarrow> real \<Rightarrow> real" where
  "fluidAlphaOf currentTime lastTime t = lerp (safeAlphaOf currentTime lastTime) 1 (t ^ 4)"

text \<open>The pair \<open>(targetTx, targetTy)\<close> of the zoom-out phase at eased progress \<open>t\<close>.\<close>

definition zoomOutTarget ::
  "DEFAULTS \<Rightarrow> ZoomRegion \<Rightarrow> MetaDataItem list \<Rightarrow> geometry \<Rightarrow> geometry \<Rightarrow> real \<Rightarrow> real
     \<Rightarrow> error + (real \<times> real)" where
  "zoomOutTarget D r metadata recordingGeometry frameContentDimensions currentTime t =
     (if panGuard r metadata recordingGeometry
      then bindE (calculateBoundedPan (smoothedPos D metadata currentTime) (fixedOriginOf r)
                    (lerp (zoomLevel r) 1 t) recordingGeometry frameContentDimensions) (\<lambda>dynamicPan.
           Inr (tx dynamicPan * cursorInfluenceOf t, ty dynamicPan * cursorInfluenceOf t))
      else Inr (0, 0))"

text \<open>
  The pan on one axis that a call returns when the pan target on that axis is \<open>0\<close>, from
  the pan \<open>carried\<close> over from the previous call as the seek test leaves it: the zoom-in
  phase starts from \<open>0\<close> and not from the carried pan, the hold phase moves the carried pan
  towards the target by the clamped smoothing factor, the zoom-out phase by the blend of that
  factor with \<open>1\<close> at the fourth power of the eased progress.
\<close>

definition panTowardsZero :: "EASING_MAP \<Rightarrow> ZoomRegion \<Rightarrow> real \<Rightarrow> real \<Rightarrow> real \<Rightarrow> real" where
  "panTowardsZero EM r currentTime lastTime carried =
     (if currentTime < startTime r + transitionDuration r then 0
      else if currentTime < startTime r + duration r - transitionDuration r
      then lerp carried 0 (safeAlphaOf currentTime lastTime)
      else lerp carried 0 (lerp (safeAlphaOf currentTime lastTime) 1
                             (zoomOutProgress EM r currentTime ^ 4)))"

text \<open>
  The zoom-out phase is the third branch of the phase test: the region is active and the
  query time is before neither the zoom-in end nor the zoom-out start.
\<close>

definition zoomOutPhase :: "real \<Rightarrow> (string \<times> ZoomRegion) list \<Rightarrow> bool" where
  "zoomOutPhase currentTime zoomRegions =
     (case findActiveRegion currentTime zoomRegions of
        None \<Rightarrow> False
      | Some r \<Rightarrow>
          startTime r + transitionDuration r \<le> currentTime \<and>
          startTime r + duration r - transitionDuration r \<le> currentTime)"

section \<open>Concrete inputs\<close>

text \<open>Inputs at which the theorems below are instantiated and the engine is evaluated.\<close>

definition samples3 :: "MetaDataItem list" where
  "samples3 = [\<lparr>timestamp = 0, m_x = 10, m_y = 20\<rparr>, \<lparr>timestamp = 1, m_x = 30, m_y = 40\<rparr>,
     \<lparr>timestamp = 1, m_x = 50, m_y = 60\<rparr>, \<lparr>timestamp = 2, m_x = 70, m_y = 80\<rparr>]"

definition defaults0 :: DEFAULTS where
  "defaults0 = \<lparr>SMOOTHING_FACTOR = 0.15, DEAD_ZONE = 5, SMOOTHING_WINDOW = 0.3\<rparr>"

definition geom1080 :: geometry where
  "geom1080 = \<lparr>width = 1920, height = 1080\<rparr>"

definition centre :: point where
  "centre = \<lparr>px = 0.5, py = 0.5\<rparr>"

text \<open>
  An easing table: linear, quadratic ease-in, and an easing that reaches \<open>1\<close> at half of
  the progress; the fallback is linear.
\<close>

definition easings0 :: EASING_MAP where
  "easings0 =
     \<lparr>entries = map_of [(''Linear'', \<lambda>p. p), (''EaseIn'', \<lambda>p. p * p), (''Fast'', \<lambda>p. min 1 (2 * p))],
      Balanced = (\<lambda>p. p)\<rparr>"

text \<open>A region from time \<open>1\<close> to \<open>4\<close> with transitions of half a second, in fixed mode.\<close>

definition regionFixed :: ZoomRegion where
  "regionFixed =
     \<lparr>startTime = 1, duration = 3, zoomLevel = 2, targetX = 0, targetY = 0,
      mode = ''fixed'', easing = ''Linear'', transitionDuration = 0.5\<rparr>"

text \<open>A carryover state with a pan left by an earlier call at time \<open>0\<close>.\<close>

definition stateStale :: EngineState where
  "stateStale = \<lparr>previousPanX = 100, previousPanY = 50, lastPanUpdateTime = 0\<rparr>"

text \<open>
  A carryover state left by a call at the later time \<open>3.2\<close>: a query at \<open>2.5\<close> is out
  of order and \<open>0.7\<close> seconds away.
\<close>

definition stateAhead :: EngineState where
  "stateAhead = \<lparr>previousPanX = 100, previousPanY = 50, lastPanUpdateTime = 3.2\<rparr>"

text \<open>The same region in auto mode, and a single sample: the cursor rests in the top left corner.\<close>

definition regionAuto :: ZoomRegion where
  "regionAuto = regionFixed\<lparr>mode := ''auto''\<rparr>"

definition samplesStill :: "MetaDataItem list" where
  "samplesStill = [\<lparr>timestamp = 0, m_x = 0, m_y = 0\<rparr>]"

text \<open>A carryover state one frame (\<open>0.016\<close> seconds) before the time \<open>3.75\<close>.\<close>

definition stateFrameBefore :: EngineState where
  "stateFrameBefore = \<lparr>previousPanX = 16, previousPanY = 32, lastPanUpdateTime = 3.734\<rparr>"

text \<open>Degenerate geometries: a recording and a frame of width \<open>0\<close>, a recording of negative width.\<close>

definition geomNoWidth :: geometry where
  "geomNoWidth = \<lparr>width = 0, height = 1080\<rparr>"

definition geomNegWidth :: geometry where
  "geomNegWidth = \<lparr>width = - 1920, height = 1080\<rparr>"

text \<open>The auto-mode region with the quadratic ease-in, and with the easing that reaches \<open>1\<close> early.\<close>

definition regionEaseIn :: ZoomRegion where
  "regionEaseIn = regionAuto\<lparr>easing := ''EaseIn''\<rparr>"



text \<open>A carryover state a fifth of a second before the time \<open>3.55\<close>, with no pan.\<close>

definition stateNear :: EngineState where
  "stateNear = \<lparr>previousPanX = 0, previousPanY = 0, lastPanUpdateTime = 3.35\<rparr>"

text \<open>A cursor that moves from \<open>(0, 0)\<close> to \<open>(3, 4)\<close> and rests there.\<close>

definition samplesMove :: "MetaDataItem list" where
  "samplesMove =
     [\<lparr>timestamp = 0, m_x = 0, m_y = 0\<rparr>, \<lparr>timestamp = 1, m_x = 3, m_y = 4\<rparr>,
      \<lparr>timestamp = 2, m_x = 3, m_y = 4\<rparr>]"





section \<open>Basic facts\<close>

lemma bindE_Inr [simp]: "bindE (Inr v) f = f v"
  by (simp add: bindE_def)

lemma bindE_Inl [simp]: "bindE (Inl e) f = Inl e"
  by (simp add: bindE_def)

lemma get_in_range: "0 \<le> i \<Longrightarrow> i < int (length xs) \<Longrightarrow> get xs i = Inr (xs ! nat i)"
  by (simp add: get_def)

lemma js_div_nonzero: "b \<noteq> 0 \<Longrightarrow> js_div a b = Inr (a / b)"
  by (simp add: js_div_def)

lemma lerp_0 [simp]: "lerp a b 0 = a"
  by (simp add: lerp_def)

lemma lerp_1 [simp]: "lerp a b 1 = b"
  by (simp add: lerp_def)

lemma lerp_zero_zero [simp]: "lerp 0 0 t = 0"
  by (simp add: lerp_def)

lemma Fin_minus [simp]: "Fin a - Fin b = Fin (a - b)"
  by (simp add: minus_jsnum_def)


lemma sqrt_25: "sqrt 25 = 5"
  by (rule real_sqrt_unique) simp_all

declare findLast_loop.simps [simp del]
declare smooth_loop.simps [simp del]

section \<open>Temporal index: range and correctness\<close>

text \<open>
  Started inside the array, the loop reads inside the array and returns either the
  \<open>result\<close> it was given or an index between \<open>left\<close> and \<open>right\<close>.
\<close>

lemma findLast_loop_range:
  "0 \<le> left \<Longrightarrow> right < int (length metadata) \<Longrightarrow>
   \<exists>i. findLast_loop metadata T left right result = Inr i \<and>
       (i = result \<or> (left \<le> i \<and> i \<le> right))"
proof (induction metadata T left right result rule: findLast_loop.induct)
  case (1 metadata T left right result)
  show ?case
  proof (cases "left \<le> right")
    case False
    then show ?thesis by (simp add: findLast_loop.simps)
  next
    case True
    define mid where "mid = (left + right) div 2"
    have mid: "left \<le> mid" "mid \<le> right" using True by (auto simp: mid_def)
    have g: "get metadata mid = Inr (metadata ! nat mid)"
      using mid "1.prems" by (intro get_in_range) auto
    show ?thesis
    proof (cases "timestamp (metadata ! nat mid) \<le> T")
      case le: True
      have "\<exists>i. findLast_loop metadata T (mid + 1) right mid = Inr i \<and>
              (i = mid \<or> (mid + 1 \<le> i \<and> i \<le> right))"
        using "1.IH"(1)[OF True mid_def g le] mid "1.prems" by simp
      moreover have "findLast_loop metadata T left right result =
          findLast_loop metadata T (mid + 1) right mid"
        using True g le by (subst findLast_loop.simps) (simp add: mid_def [symmetric])
      ultimately show ?thesis using mid by auto
    next
      case gt: False
      have "\<exists>i. findLast_loop metadata T left (mid - 1) result = Inr i \<and>
              (i = result \<or> (left \<le> i \<and> i \<le> mid - 1))"
        using "1.IH"(2)[OF True mid_def g gt] mid "1.prems" by simp
      moreover have "findLast_loop metadata T left right result =
          findLast_loop metadata T left (mid - 1) result"
        using True g gt by (subst findLast_loop.simps) (simp add: mid_def [symmetric])
      ultimately show ?thesis using mid by auto
    qed
  qed
qed

lemma findLastMetadataIndex_range:
  "\<exists>i. findLastMetadataIndex metadata T = Inr i \<and> - 1 \<le> i \<and> i < int (length metadata)"
proof (cases "length metadata = 0")
  case True
  then show ?thesis by (simp add: findLastMetadataIndex_def)
next
  case False
  have "\<exists>i. findLast_loop metadata T 0 (int (length metadata) - 1) (- 1) = Inr i \<and>
          (i = - 1 \<or> (0 \<le> i \<and> i \<le> int (length metadata) - 1))"
    by (rule findLast_loop_range) simp_all
  then show ?thesis using False by (auto simp: findLastMetadataIndex_def)
qed

text \<open>On a time-ordered sequence the loop keeps the invariant of a binary search.\<close>

lemma ts_mono:
  "sorted (map timestamp metadata) \<Longrightarrow> 0 \<le> i \<Longrightarrow> i \<le> j \<Longrightarrow> j < int (length metadata) \<Longrightarrow>
   timestamp (metadata ! nat i) \<le> timestamp (metadata ! nat j)"
proof -
  assume s: "sorted (map timestamp metadata)" and ij: "0 \<le> i" "i \<le> j" "j < int (length metadata)"
  have "map timestamp metadata ! nat i \<le> map timestamp metadata ! nat j"
    using s ij by (intro sorted_nth_mono) auto
  then show ?thesis using ij by simp
qed

lemma findLast_loop_sorted:
  assumes "sorted (map timestamp metadata)"
    and "0 \<le> left" and "right < int (length metadata)" and "left \<le> right + 1"
    and "result = left - 1"
    and "\<forall>k. 0 \<le> k \<and> k < left \<longrightarrow> timestamp (metadata ! nat k) \<le> T"
    and "\<forall>k. right < k \<and> k < int (length metadata) \<longrightarrow> T < timestamp (metadata ! nat k)"
  shows "\<exists>i. findLast_loop metadata T left right result = Inr i \<and>
           - 1 \<le> i \<and> i < int (length metadata) \<and>
           (\<forall>k. 0 \<le> k \<and> k \<le> i \<longrightarrow> timestamp (metadata ! nat k) \<le> T) \<and>
           (\<forall>k. i < k \<and> k < int (length metadata) \<longrightarrow> T < timestamp (metadata ! nat k))"
  using assms
proof (induction metadata T left right result rule: findLast_loop.induct)
  case (1 metadata T left right result)
  show ?case
  proof (cases "left \<le> right")
    case False
    then have "findLast_loop metadata T left right result = Inr result"
      by (simp add: findLast_loop.simps)
    moreover have "result = right" using False "1.prems" by simp
    ultimately show ?thesis using "1.prems" by auto
  next
    case True
    define mid where "mid = (left + right) div 2"
    have mid: "left \<le> mid" "mid \<le> right" using True by (auto simp: mid_def)
    have g: "get metadata mid = Inr (metadata ! nat mid)"
      using mid "1.prems" by (intro get_in_range) auto
    show ?thesis
    proof (cases "timestamp (metadata ! nat mid) \<le> T")
      case le: True
      have below: "\<forall>k. 0 \<le> k \<and> k < mid + 1 \<longrightarrow> timestamp (metadata ! nat k) \<le> T"
      proof (intro allI impI)
        fix k assume k: "0 \<le> k \<and> k < mid + 1"
        have "timestamp (metadata ! nat k) \<le> timestamp (metadata ! nat mid)"
          using k mid "1.prems"(1,3) by (intro ts_mono) auto
        then show "timestamp (metadata ! nat k) \<le> T" using le by simp
      qed
      have eq: "findLast_loop metadata T left right result =
          findLast_loop metadata T (mid + 1) right mid"
        using True g le by (subst findLast_loop.simps) (simp add: mid_def [symmetric])
      show ?thesis
        unfolding eq
        using "1.IH"(1)[OF True mid_def g le "1.prems"(1) _ "1.prems"(3) _ _ below "1.prems"(7)]
          mid "1.prems"(2) by simp
    next
      case gt: False
      have above: "\<forall>k. mid - 1 < k \<and> k < int (length metadata) \<longrightarrow> T < timestamp (metadata ! nat k)"
      proof (intro allI impI)
        fix k assume k: "mid - 1 < k \<and> k < int (length metadata)"
        have "timestamp (metadata ! nat mid) \<le> timestamp (metadata ! nat k)"
          using k mid "1.prems"(1,2) by (intro ts_mono) auto
        then show "T < timestamp (metadata ! nat k)" using gt by simp
      qed
      have eq: "findLast_loop metadata T left right result =
          findLast_loop metadata T left (mid - 1) result"
        using True g gt by (subst findLast_loop.simps) (simp add: mid_def [symmetric])
      show ?thesis
        unfolding eq
        using "1.IH"(2)[OF True mid_def g gt "1.prems"(1,2) _ _ "1.prems"(5,6) above]
          mid "1.prems"(3) by simp
    qed
  qed
qed

text \<open>
  Claim C3.  On a sample sequence with non-decreasing timestamps and for every query time
  \<open>T\<close>, \<open>findLastMetadataIndex\<close> returns an index \<open>i\<close> that is \<open>-1\<close> or satisfies
  \<open>samples[i].timestamp \<le> T\<close> with \<open>i\<close> the last index or \<open>samples[i+1].timestamp > T\<close>;
  every sample after \<open>i\<close> is later than \<open>T\<close>, so ties resolve to the highest index; and
  \<open>-1\<close> is returned exactly when no sample has a timestamp \<open>\<le> T\<close>.
\<close>

theorem findLastMetadataIndex_correct:
  assumes "sorted (map timestamp metadata)"
  shows "\<exists>i. findLastMetadataIndex metadata T = Inr i \<and>
           (i = - 1 \<or>
            (0 \<le> i \<and> i < int (length metadata) \<and> timestamp (metadata ! nat i) \<le> T \<and>
             (i = int (length metadata) - 1 \<or> T < timestamp (metadata ! nat (i + 1))))) \<and>
           (\<forall>k. i < k \<and> k < int (length metadata) \<longrightarrow> T < timestamp (metadata ! nat k)) \<and>
           ((i = - 1) = (\<forall>m \<in> set metadata. T < timestamp m))"
proof (cases "length metadata = 0")
  case True
  then show ?thesis by (auto simp: findLastMetadataIndex_def)
next
  case False
  have "\<exists>i. findLast_loop metadata T 0 (int (length metadata) - 1) (- 1) = Inr i \<and>
           - 1 \<le> i \<and> i < int (length metadata) \<and>
           (\<forall>k. 0 \<le> k \<and> k \<le> i \<longrightarrow> timestamp (metadata ! nat k) \<le> T) \<and>
           (\<forall>k. i < k \<and> k < int (length metadata) \<longrightarrow> T < timestamp (metadata ! nat k))"
    using assms by (intro findLast_loop_sorted) auto
  then obtain i where i: "findLast_loop metadata T 0 (int (length metadata) - 1) (- 1) = Inr i"
    "- 1 \<le> i" "i < int (length metadata)"
    "\<forall>k. 0 \<le> k \<and> k \<le> i \<longrightarrow> timestamp (metadata ! nat k) \<le> T"
    "\<forall>k. i < k \<and> k < int (length metadata) \<longrightarrow> T < timestamp (metadata ! nat k)"
    by blast
  have r: "findLastMetadataIndex metadata T = Inr i"
    using False i(1) by (simp add: findLastMetadataIndex_def)
  have a: "i = - 1 \<or>
            (0 \<le> i \<and> i < int (length metadata) \<and> timestamp (metadata ! nat i) \<le> T \<and>
             (i = int (length metadata) - 1 \<or> T < timestamp (metadata ! nat (i + 1))))"
  proof (cases "i = - 1")
    case True then show ?thesis by simp
  next
    case ni: False
    then have i0: "0 \<le> i" using i(2) by simp
    have "timestamp (metadata ! nat i) \<le> T" using i(4) i0 by simp
    moreover have "i = int (length metadata) - 1 \<or> T < timestamp (metadata ! nat (i + 1))"
      using i(3,5) by (cases "i = int (length metadata) - 1") auto
    ultimately show ?thesis using i0 i(3) by simp
  qed
  have b: "(i = - 1) = (\<forall>m \<in> set metadata. T < timestamp m)"
  proof
    assume e: "i = - 1"
    show "\<forall>m \<in> set metadata. T < timestamp m"
    proof
      fix m assume "m \<in> set metadata"
      then obtain n where n: "n < length metadata" "metadata ! n = m"
        by (auto simp: in_set_conv_nth)
      have "T < timestamp (metadata ! nat (int n))" using i(5) e n(1) by (intro i(5)[rule_format]) auto
      then show "T < timestamp m" using n by simp
    qed
  next
    assume all: "\<forall>m \<in> set metadata. T < timestamp m"
    show "i = - 1"
    proof (rule ccontr)
      assume "i \<noteq> - 1"
      then have i0: "0 \<le> i" using i(2) by simp
      have "metadata ! nat i \<in> set metadata" using i0 i(3) by (intro nth_mem) auto
      then have "T < timestamp (metadata ! nat i)" using all by blast
      moreover have "timestamp (metadata ! nat i) \<le> T" using i(4) i0 by simp
      ultimately show False by simp
    qed
  qed
  show ?thesis using r a b i(5) by blast
qed

theorem findLastMetadataIndex_correct_witness:
  "sorted (map timestamp samples3) \<and> findLastMetadataIndex samples3 1 = Inr 2 \<and>
   timestamp (samples3 ! 2) \<le> 1 \<and> 1 < timestamp (samples3 ! 3)"
  using findLastMetadataIndex_correct [of samples3 1]
  by (simp add: samples3_def findLastMetadataIndex_def findLast_loop.simps get_def)

section \<open>Smoother: every array read is in bounds\<close>

lemma smooth_loop_total:
  "0 \<le> i \<Longrightarrow> endIndex < int (length metadata) \<Longrightarrow>
   \<exists>p. smooth_loop metadata i endIndex sf dz sx sy = Inr p"
proof (induction metadata i endIndex sf dz sx sy rule: smooth_loop.induct)
  case (1 metadata i endIndex sf dz sx sy)
  show ?case
  proof (cases "i \<le> endIndex")
    case False
    then show ?thesis by (simp add: smooth_loop.simps)
  next
    case True
    have g: "get metadata i = Inr (metadata ! nat i)"
      using True "1.prems" by (intro get_in_range) auto
    show ?thesis
      using "1.IH"[OF True g refl refl refl refl refl refl] "1.prems" True g
      by (subst smooth_loop.simps) (simp add: Let_def)
  qed
qed

lemma smoothStartIndex_range:
  assumes "metadata \<noteq> []"
  shows "\<exists>s. smoothStartIndex D metadata T = Inr s \<and> 0 \<le> s \<and> s < int (length metadata)"
proof -
  obtain i where i: "findLastMetadataIndex metadata (max 0 (T - SMOOTHING_WINDOW D)) = Inr i"
    "- 1 \<le> i" "i < int (length metadata)"
    using findLastMetadataIndex_range by blast
  show ?thesis using i assms by (simp add: smoothStartIndex_def Let_def)
qed

lemma getSmoothedMousePosition_total:
  "\<exists>r. getSmoothedMousePosition D metadata T sf dz = Inr r"
proof -
  obtain e where e: "findLastMetadataIndex metadata T = Inr e" "- 1 \<le> e" "e < int (length metadata)"
    using findLastMetadataIndex_range by blast
  show ?thesis
  proof (cases "e < 0")
    case True
    then show ?thesis using e by (simp add: getSmoothedMousePosition_def)
  next
    case False
    then have ne: "metadata \<noteq> []" using e by auto
    obtain s where s: "smoothStartIndex D metadata T = Inr s" "0 \<le> s" "s < int (length metadata)"
      using smoothStartIndex_range[OF ne] by blast
    obtain sx sy where l: "smooth_loop metadata (s + 1) e sf dz (m_x (metadata ! nat s)) (m_y (metadata ! nat s)) = Inr (sx, sy)"
      using smooth_loop_total[of "s + 1" e metadata sf dz] s e by (metis add_nonneg_nonneg zero_le_one surj_pair)
    have gs: "get metadata s = Inr (metadata ! nat s)" using s by (intro get_in_range)
    have ge: "get metadata e = Inr (metadata ! nat e)" using e False by (intro get_in_range) auto
    show ?thesis
    proof (cases "e + 1 < int (length metadata)")
      case True
      have gn: "get metadata (e + 1) = Inr (metadata ! nat (e + 1))"
        using True False by (intro get_in_range) auto
      show ?thesis
        using e s l gs ge gn True False
        by (simp add: getSmoothedMousePosition_def Let_def js_div_def)
    next
      case nl: False
      show ?thesis
        using e s l gs ge nl False
        by (simp add: getSmoothedMousePosition_def Let_def)
    qed
  qed
qed

text \<open>
  Claim C10.  For every sample sequence and query time, \<open>findLastMetadataIndex\<close> returns
  \<open>-1\<close> or an index of the array, and \<open>getSmoothedMousePosition\<close> never reads outside
  the array (it returns a value, never the TypeError of an out-of-range read): once
  \<open>endIndex \<ge> 0\<close> the anchor \<open>startIndex\<close> is an index of the array, so the early
  return for \<open>startIndex \<ge> length\<close> is not taken, and the loop indices
  \<open>startIndex + 1 .. endIndex\<close> are indices of the array.
\<close>

theorem smoother_reads_in_bounds:
  "(\<exists>i. findLastMetadataIndex metadata T = Inr i \<and>
        (i = - 1 \<or> (0 \<le> i \<and> i < int (length metadata)))) \<and>
   (\<exists>r. getSmoothedMousePosition D metadata T sf dz = Inr r) \<and>
   (\<forall>e. findLastMetadataIndex metadata T = Inr e \<and> 0 \<le> e \<longrightarrow>
      (\<exists>s. smoothStartIndex D metadata T = Inr s \<and> 0 \<le> s \<and> s < int (length metadata) \<and>
         get metadata s = Inr (metadata ! nat s) \<and>
         get metadata e = Inr (metadata ! nat e) \<and>
         (\<forall>k. s + 1 \<le> k \<and> k \<le> e \<longrightarrow> get metadata k = Inr (metadata ! nat k))))"
proof (intro conjI allI impI)
  obtain i where i: "findLastMetadataIndex metadata T = Inr i" "- 1 \<le> i" "i < int (length metadata)"
    using findLastMetadataIndex_range by blast
  then show "\<exists>i. findLastMetadataIndex metadata T = Inr i \<and>
        (i = - 1 \<or> (0 \<le> i \<and> i < int (length metadata)))"
    by (intro exI[of _ i]) auto
next
  show "\<exists>r. getSmoothedMousePosition D metadata T sf dz = Inr r"
    by (rule getSmoothedMousePosition_total)
next
  fix e assume e: "findLastMetadataIndex metadata T = Inr e \<and> 0 \<le> e"
  obtain i where i: "findLastMetadataIndex metadata T = Inr i" "- 1 \<le> i" "i < int (length metadata)"
    using findLastMetadataIndex_range by blast
  have el: "e < int (length metadata)" using e i by simp
  then have ne: "metadata \<noteq> []" using e by auto
  obtain s where s: "smoothStartIndex D metadata T = Inr s" "0 \<le> s" "s < int (length metadata)"
    using smoothStartIndex_range[OF ne] by blast
  have "get metadata s = Inr (metadata ! nat s)" using s by (intro get_in_range)
  moreover have "get metadata e = Inr (metadata ! nat e)" using e el by (intro get_in_range) auto
  moreover have "\<forall>k. s + 1 \<le> k \<and> k \<le> e \<longrightarrow> get metadata k = Inr (metadata ! nat k)"
    using s el by (auto intro!: get_in_range)
  ultimately show "\<exists>s. smoothStartIndex D metadata T = Inr s \<and> 0 \<le> s \<and> s < int (length metadata) \<and>
         get metadata s = Inr (metadata ! nat s) \<and>
         get metadata e = Inr (metadata ! nat e) \<and>
         (\<forall>k. s + 1 \<le> k \<and> k \<le> e \<longrightarrow> get metadata k = Inr (metadata ! nat k))"
    using s by blast
qed

theorem smoother_reads_in_bounds_witness:
  "findLastMetadataIndex samplesMove 1.1 = Inr 1 \<and>
   smoothStartIndex defaults0 samplesMove 1.1 = Inr 0 \<and>
   get samplesMove 1 = Inr (samplesMove ! 1) \<and>
   getSmoothedMousePosition defaults0 samplesMove 1.1 0.15 5 =
     Inr (Some \<lparr>px = 0.177975, py = 0.2373\<rparr>)"
  using smoother_reads_in_bounds [of samplesMove "1.1" defaults0 "0.15" 5]
  by (simp add: getSmoothedMousePosition_def samplesMove_def defaults0_def
      findLastMetadataIndex_def findLast_loop.simps smooth_loop.simps get_def smoothStartIndex_def
      js_div_def lerp_def Let_def sqrt_25)

section \<open>Bounded pan solver: the clamp\<close>

lemma clamp_bounds:
  fixes lo hi v :: real
  shows "lo \<le> hi \<Longrightarrow> lo \<le> max lo (min hi v) \<and> max lo (min hi v) \<le> hi"
  by auto

lemma pan_envelope:
  fixes piv d z :: real
  assumes "1 \<le> z" "0 \<le> piv" "piv \<le> 1" "0 \<le> d"
  shows "- ((1 - piv) * d * (z - 1)) / z \<le> 0" and "0 \<le> (piv * d * (z - 1)) / z"
proof -
  have z: "0 < z" using assms by simp
  have "0 \<le> (1 - piv) * d * (z - 1)" using assms by simp
  then show "- ((1 - piv) * d * (z - 1)) / z \<le> 0" using z by (simp add: divide_le_0_iff)
  have "0 \<le> piv * d * (z - 1)" using assms by simp
  then show "0 \<le> (piv * d * (z - 1)) / z" using z by simp
qed

lemma calculateBoundedPan_Some:
  assumes "width rg \<noteq> 0" "height rg \<noteq> 0" "z \<noteq> 0"
  shows "calculateBoundedPan (Some mp) origin z rg fd =
     Inr \<lparr>tx = max (- ((1 - px origin) * width fd * (z - 1)) / z)
                 (min ((px origin * width fd * (z - 1)) / z)
                   ((0.5 - ((px mp / width rg - px origin) * z + px origin)) * width fd / z)),
          ty = max (- ((1 - py origin) * height fd * (z - 1)) / z)
                 (min ((py origin * height fd * (z - 1)) / z)
                   ((0.5 - ((py mp / height rg - py origin) * z + py origin)) * height fd / z))\<rparr>"
  using assms by (simp add: calculateBoundedPan_def Let_def)

text \<open>
  Claim C4.  For every cursor position (also an absent one), pivot origin in the unit
  square, zoom level \<open>> 1\<close> and positive geometries, the pan returned by
  \<open>calculateBoundedPan\<close> lies per axis between \<open>minT = -(1 - pivot) * dim * (zoom - 1) / zoom\<close>
  and \<open>maxT = pivot * dim * (zoom - 1) / zoom\<close>; at zoom level \<open>1\<close> both bounds are \<open>0\<close>
  and the pan is \<open>(0, 0)\<close>.
\<close>

theorem calculateBoundedPan_within_bounds:
  assumes "1 \<le> z"
    and "0 \<le> px origin" and "px origin \<le> 1" and "0 \<le> py origin" and "py origin \<le> 1"
    and "0 < width rg" and "0 < height rg" and "0 < width fd" and "0 < height fd"
  shows "\<exists>p. calculateBoundedPan mousePos origin z rg fd = Inr p \<and>
           - ((1 - px origin) * width fd * (z - 1)) / z \<le> tx p \<and>
           tx p \<le> (px origin * width fd * (z - 1)) / z \<and>
           - ((1 - py origin) * height fd * (z - 1)) / z \<le> ty p \<and>
           ty p \<le> (py origin * height fd * (z - 1)) / z \<and>
           (z = 1 \<longrightarrow> tx p = 0 \<and> ty p = 0)"
proof -
  have ex: "- ((1 - px origin) * width fd * (z - 1)) / z \<le> 0"
       "0 \<le> (px origin * width fd * (z - 1)) / z"
    using pan_envelope[of z "px origin" "width fd"] assms by simp_all
  have ey: "- ((1 - py origin) * height fd * (z - 1)) / z \<le> 0"
       "0 \<le> (py origin * height fd * (z - 1)) / z"
    using pan_envelope[of z "py origin" "height fd"] assms by simp_all
  show ?thesis
  proof (cases mousePos)
    case None
    then have "calculateBoundedPan mousePos origin z rg fd = Inr \<lparr>tx = 0, ty = 0\<rparr>"
      by (simp add: calculateBoundedPan_def)
    then show ?thesis using ex ey by simp
  next
    case (Some mp)
    have nz: "width rg \<noteq> 0" "height rg \<noteq> 0" "z \<noteq> 0" using assms by simp_all
    note r = calculateBoundedPan_Some[OF nz, of mp origin fd]
    have bx: "- ((1 - px origin) * width fd * (z - 1)) / z \<le> (px origin * width fd * (z - 1)) / z"
      using ex by linarith
    have byy: "- ((1 - py origin) * height fd * (z - 1)) / z \<le> (py origin * height fd * (z - 1)) / z"
      using ey by linarith
    define vx where "vx = (0.5 - ((px mp / width rg - px origin) * z + px origin)) * width fd / z"
    define vy where "vy = (0.5 - ((py mp / height rg - py origin) * z + py origin)) * height fd / z"
    define p where "p = \<lparr>tx = max (- ((1 - px origin) * width fd * (z - 1)) / z)
                 (min ((px origin * width fd * (z - 1)) / z) vx),
          ty = max (- ((1 - py origin) * height fd * (z - 1)) / z)
                 (min ((py origin * height fd * (z - 1)) / z) vy)\<rparr>"
    have e: "calculateBoundedPan mousePos origin z rg fd = Inr p"
      unfolding Some r p_def vx_def vy_def by simp
    have cx: "- ((1 - px origin) * width fd * (z - 1)) / z \<le> tx p"
         "tx p \<le> (px origin * width fd * (z - 1)) / z"
      using clamp_bounds[OF bx, of vx] by (simp_all add: p_def)
    have cy: "- ((1 - py origin) * height fd * (z - 1)) / z \<le> ty p"
         "ty p \<le> (py origin * height fd * (z - 1)) / z"
      using clamp_bounds[OF byy, of vy] by (simp_all add: p_def)
    have one: "z = 1 \<longrightarrow> tx p = 0 \<and> ty p = 0"
      using cx cy by auto
    show ?thesis using e cx cy one by blast
  qed
qed

theorem calculateBoundedPan_within_bounds_witness:
  "(1::real) \<le> 2 \<and> 0 < width geom1080 \<and> 0 < height geom1080 \<and>
   calculateBoundedPan (Some \<lparr>px = 0, py = 0\<rparr>) centre 2 geom1080 geom1080 =
     Inr \<lparr>tx = 480, ty = 270\<rparr> \<and>
   (480::real) \<le> (px centre * width geom1080 * (2 - 1)) / 2"
  using calculateBoundedPan_within_bounds [of 2 centre geom1080 geom1080 "Some \<lparr>px = 0, py = 0\<rparr>"]
  by (simp add: geom1080_def centre_def calculateBoundedPan_Some)

section \<open>The engine, phase by phase\<close>

lemma getSmoothed_eq:
  "getSmoothedMousePosition D metadata time (SMOOTHING_FACTOR D) (DEAD_ZONE D) =
     Inr (smoothedPos D metadata time)"
  using getSmoothedMousePosition_total[of D metadata time "SMOOTHING_FACTOR D" "DEAD_ZONE D"]
  by (auto simp: smoothedPos_def)

lemma bindE_assoc: "bindE (bindE m f) g = bindE m (\<lambda>x. bindE (f x) g)"
  by (cases m) simp_all

lemma state_eq:
  "st\<lparr>previousPanX := a, previousPanY := b, lastPanUpdateTime := c\<rparr> =
     \<lparr>previousPanX = a, previousPanY = b, lastPanUpdateTime = c\<rparr>"
  by simp

lemma regionTransform_zoomIn:
  assumes "startTime r \<le> t" and "t < startTime r + transitionDuration r"
  shows "regionTransform D EM t r metadata rg fd st =
     bindE (panTarget D r metadata rg fd (startTime r + transitionDuration r) (zoomLevel r)) (\<lambda>ip.
       Inr (\<lparr>scale = lerp 1 (zoomLevel r) (easingFn EM (easing r) ((t - startTime r) / transitionDuration r)),
             translateX = lerp 0 (tx ip) (easingFn EM (easing r) ((t - startTime r) / transitionDuration r)),
             translateY = lerp 0 (ty ip) (easingFn EM (easing r) ((t - startTime r) / transitionDuration r)),
             transformOrigin = originOf r\<rparr>,
            \<lparr>previousPanX = lerp 0 (tx ip) (easingFn EM (easing r) ((t - startTime r) / transitionDuration r)),
             previousPanY = lerp 0 (ty ip) (easingFn EM (easing r) ((t - startTime r) / transitionDuration r)),
             lastPanUpdateTime = t\<rparr>))"
proof -
  have td: "transitionDuration r \<noteq> 0" using assms by auto
  show ?thesis
    using assms td
    by (cases "panGuard r metadata rg")
       (auto simp: regionTransform_def Let_def getSmoothed_eq panTarget_def panGuard_def
          fixedOriginOf_def originOf_def js_div_nonzero bindE_assoc state_eq)
qed

lemma regionTransform_hold:
  assumes "\<not> (startTime r \<le> t \<and> t < startTime r + transitionDuration r)"
    and "startTime r + transitionDuration r \<le> t"
    and "t < startTime r + duration r - transitionDuration r"
  shows "regionTransform D EM t r metadata rg fd st =
     bindE (panTarget D r metadata rg fd t (zoomLevel r)) (\<lambda>lp.
       Inr (\<lparr>scale = zoomLevel r,
             translateX = lerp (previousPanX st) (tx lp) (safeAlphaOf t (lastPanUpdateTime st)),
             translateY = lerp (previousPanY st) (ty lp) (safeAlphaOf t (lastPanUpdateTime st)),
             transformOrigin = originOf r\<rparr>,
            \<lparr>previousPanX = lerp (previousPanX st) (tx lp) (safeAlphaOf t (lastPanUpdateTime st)),
             previousPanY = lerp (previousPanY st) (ty lp) (safeAlphaOf t (lastPanUpdateTime st)),
             lastPanUpdateTime = t\<rparr>))"
  using assms
  by (cases "panGuard r metadata rg")
     (auto simp: regionTransform_def Let_def getSmoothed_eq panTarget_def panGuard_def
        fixedOriginOf_def originOf_def safeAlphaOf_def bindE_assoc state_eq)

lemma regionTransform_zoomOut:
  assumes "\<not> (startTime r \<le> t \<and> t < startTime r + transitionDuration r)"
    and "\<not> (startTime r + transitionDuration r \<le> t \<and> t < startTime r + duration r - transitionDuration r)"
    and "startTime r + duration r - transitionDuration r \<le> t"
    and "t \<le> startTime r + duration r"
    and "transitionDuration r \<noteq> 0"
  shows "regionTransform D EM t r metadata rg fd st =
     bindE (zoomOutTarget D r metadata rg fd t (zoomOutProgress EM r t)) (\<lambda>(targetTx, targetTy).
       Inr (\<lparr>scale = lerp (zoomLevel r) 1 (zoomOutProgress EM r t),
             translateX = lerp (previousPanX st) targetTx
                            (fluidAlphaOf t (lastPanUpdateTime st) (zoomOutProgress EM r t)),
             translateY = lerp (previousPanY st) targetTy
                            (fluidAlphaOf t (lastPanUpdateTime st) (zoomOutProgress EM r t)),
             transformOrigin = originOf r\<rparr>,
            \<lparr>previousPanX = lerp (previousPanX st) targetTx
                              (fluidAlphaOf t (lastPanUpdateTime st) (zoomOutProgress EM r t)),
             previousPanY = lerp (previousPanY st) targetTy
                              (fluidAlphaOf t (lastPanUpdateTime st) (zoomOutProgress EM r t)),
             lastPanUpdateTime = t\<rparr>))"
proof -
  have zi: "(startTime r \<le> t \<and> t < startTime r + transitionDuration r) = False"
    using assms(1) by simp
  have ho: "(startTime r + transitionDuration r \<le> t \<and>
             t < startTime r + duration r - transitionDuration r) = False"
    using assms(2) by simp
  have zo: "(startTime r + duration r - transitionDuration r \<le> t \<and>
             t \<le> startTime r + duration r) = True"
    using assms(3,4) by simp
  show ?thesis
  proof (cases "panGuard r metadata rg")
    case True
    then have g: "(mode r = ''auto'' \<and> 0 < length metadata \<and> 0 < width rg) = True"
      by (simp add: panGuard_def)
    show ?thesis
      using assms(5) True
      by (simp add: regionTransform_def Let_def getSmoothed_eq zoomOutTarget_def zi ho zo g
          fixedOriginOf_def originOf_def js_div_nonzero bindE_assoc state_eq zoomOutProgress_def
          fluidAlphaOf_def safeAlphaOf_def cursorInfluenceOf_def del: length_greater_0_conv)
  next
    case False
    then have g: "(mode r = ''auto'' \<and> 0 < length metadata \<and> 0 < width rg) = False"
      by (simp add: panGuard_def)
    show ?thesis
      using assms(5) False
      by (simp add: regionTransform_def Let_def getSmoothed_eq zoomOutTarget_def zi ho zo g
          fixedOriginOf_def originOf_def js_div_nonzero bindE_assoc state_eq zoomOutProgress_def
          fluidAlphaOf_def safeAlphaOf_def cursorInfluenceOf_def del: length_greater_0_conv)
  qed
qed

lemma active_bounds:
  "findActiveRegion t zoomRegions = Some r \<Longrightarrow> startTime r \<le> t \<and> t < startTime r + duration r"
  by (auto simp: findActiveRegion_def find_Some_iff)

lemma calc_inactive:
  "findActiveRegion t zoomRegions = None \<Longrightarrow>
   calculateZoomTransform D EM t zoomRegions metadata rg fd st =
     Inr (\<lparr>scale = 1, translateX = 0, translateY = 0, transformOrigin = Percent 50 50\<rparr>, st)"
  by (simp add: calculateZoomTransform_def Let_def)

lemma calc_active:
  "findActiveRegion t zoomRegions = Some r \<Longrightarrow>
   calculateZoomTransform D EM t zoomRegions metadata rg fd st =
     regionTransform D EM t r metadata rg fd (afterSeekTest t st)"
  by (simp add: calculateZoomTransform_def Let_def afterSeekTest_def)

text \<open>The smoother on the single resting sample.\<close>

lemma smoothed_still:
  "0 \<le> T \<Longrightarrow> getSmoothedMousePosition D samplesStill T sf dz = Inr (Some \<lparr>px = 0, py = 0\<rparr>)"
  by (simp add: getSmoothedMousePosition_def samplesStill_def findLastMetadataIndex_def
      findLast_loop.simps smooth_loop.simps get_def smoothStartIndex_def Let_def)

lemma samplesStill_ne: "samplesStill \<noteq> []"
  by (simp add: samplesStill_def)

section \<open>Seeks\<close>

text \<open>
  With an active region, a call whose query time differs from the recorded time of the
  previous call by more than half a second, in either direction, computes from the carried
  pan \<open>(0, 0)\<close>: its result is the one of the region's body, and of the engine, started from
  the state with the pan reset.
\<close>

lemma seek_in_region_resets:
  assumes "findActiveRegion t zoomRegions = Some r" and "\<bar>t - lastPanUpdateTime st\<bar> > 0.5"
  shows "calculateZoomTransform D EM t zoomRegions metadata rg fd st =
           regionTransform D EM t r metadata rg fd (st\<lparr>previousPanX := 0, previousPanY := 0\<rparr>)"
    and "calculateZoomTransform D EM t zoomRegions metadata rg fd st =
           calculateZoomTransform D EM t zoomRegions metadata rg fd
             (st\<lparr>previousPanX := 0, previousPanY := 0\<rparr>)"
  using assms by (simp_all add: calc_active afterSeekTest_def)

lemma seek_backwards_in_region:
  "findActiveRegion 2.5 [(''z1'', regionAuto)] = Some regionAuto \<and>
   \<bar>2.5 - lastPanUpdateTime stateAhead\<bar> > 0.5 \<and>
   calculateZoomTransform defaults0 easings0 2.5 [(''z1'', regionAuto)] samplesStill
       geom1080 geom1080 stateAhead =
     Inr (\<lparr>scale = 2, translateX = 0, translateY = 0, transformOrigin = Percent 50 50\<rparr>,
          \<lparr>previousPanX = 0, previousPanY = 0, lastPanUpdateTime = 2.5\<rparr>)"
  by (simp add: calculateZoomTransform_def findActiveRegion_def regionAuto_def regionFixed_def
      stateAhead_def regionTransform_def Let_def getTransformOrigin_def smoothed_still
      samplesStill_ne geom1080_def calculateBoundedPan_Some)

text \<open>
  Claim C9: every call whose query time differs from the recorded time of the previous call
  by more than half a second resets the carried pan to \<open>(0, 0)\<close> before computing the
  transform.  The comment above the test in \<^verbatim>\<open>transform.ts\<close> says the same and more,
  \<^verbatim>\<open>If no region or big time jump, reset tracking\<close>, but the assignments are inside
  \<^verbatim>\<open>if (activeRegion)\<close>, so without an active region nothing is reset.  At time \<open>10\<close>
  no region is active, the recorded time \<open>0\<close> is more than half a second away, and the
  call returns the identity transform and leaves the carried pan \<open>(100, 50)\<close> and the
  recorded time as they were.
\<close>

theorem no_reset_without_region:
  "findActiveRegion 10 [(''z1'', regionFixed)] = None \<and>
   \<bar>10 - lastPanUpdateTime stateStale\<bar> > 0.5 \<and>
   calculateZoomTransform defaults0 easings0 10 [(''z1'', regionFixed)] [] geom1080 geom1080 stateStale =
     Inr (\<lparr>scale = 1, translateX = 0, translateY = 0, transformOrigin = Percent 50 50\<rparr>,
          \<lparr>previousPanX = 100, previousPanY = 50, lastPanUpdateTime = 0\<rparr>)"
  by (simp add: calculateZoomTransform_def findActiveRegion_def regionFixed_def stateStale_def Let_def)

section \<open>Two calls at the same time\<close>

lemma safeAlphaOf_same [simp]: "safeAlphaOf t t = 0"
  by (simp add: safeAlphaOf_def)

lemma fluidAlphaOf_same [simp]: "fluidAlphaOf t t e = e ^ 4"
  by (simp add: fluidAlphaOf_def lerp_def)

lemma afterSeekTest_last [simp]: "lastPanUpdateTime (afterSeekTest t st) = lastPanUpdateTime st"
  by (simp add: afterSeekTest_def)

lemma afterSeekTest_same: "lastPanUpdateTime st = t \<Longrightarrow> afterSeekTest t st = st"
  by (simp add: afterSeekTest_def)

lemma bindE_eq_Inr: "bindE m f = Inr v \<Longrightarrow> \<exists>x. m = Inr x \<and> f x = Inr v"
  by (cases m) simp_all

lemma zoomOut_td_pos:
  assumes "findActiveRegion t zoomRegions = Some r"
    and "startTime r + duration r - transitionDuration r \<le> t"
  shows "0 < transitionDuration r"
  using active_bounds[OF assms(1)] assms(2) by simp

text \<open>
  Claim C1, as amended.  When a call returns a transform, a second call with the same
  arguments and the same query time, started from the state the first call left, returns
  a transform with the same scale and transform origin.  Outside the zoom-out phase
  (no active region, zoom-in, hold) the second transform and state are identical to the
  first.  In the zoom-out phase the second pan is the first pan moved once more towards
  the pan target, by the convergence factor: \<open>lerp(first, target, t\<^sup>4)\<close> for the eased
  progress \<open>t\<close>.
\<close>

theorem second_call_same_time:
  assumes "calculateZoomTransform D EM t zoomRegions metadata rg fd st = Inr (res, st')"
  shows "\<exists>res2 st2.
           calculateZoomTransform D EM t zoomRegions metadata rg fd st' = Inr (res2, st2) \<and>
           scale res2 = scale res \<and> transformOrigin res2 = transformOrigin res \<and>
           (\<not> zoomOutPhase t zoomRegions \<longrightarrow> res2 = res \<and> st2 = st') \<and>
           (zoomOutPhase t zoomRegions \<longrightarrow>
              (\<exists>r tg. findActiveRegion t zoomRegions = Some r \<and>
                 zoomOutTarget D r metadata rg fd t (zoomOutProgress EM r t) = Inr tg \<and>
                 translateX res2 = lerp (translateX res) (fst tg) (zoomOutProgress EM r t ^ 4) \<and>
                 translateY res2 = lerp (translateY res) (snd tg) (zoomOutProgress EM r t ^ 4)))"
proof (cases "findActiveRegion t zoomRegions")
  case None
  then have "res = \<lparr>scale = 1, translateX = 0, translateY = 0, transformOrigin = Percent 50 50\<rparr>"
    "st' = st"
    using assms by (simp_all add: calc_inactive)
  then show ?thesis using None by (simp add: calc_inactive zoomOutPhase_def)
next
  case (Some r)
  note ab = active_bounds[OF Some]
  define s1 where "s1 = afterSeekTest t st"
  have first: "regionTransform D EM t r metadata rg fd s1 = Inr (res, st')"
    using assms Some by (simp add: calc_active s1_def)
  have second: "calculateZoomTransform D EM t zoomRegions metadata rg fd st' =
      regionTransform D EM t r metadata rg fd (afterSeekTest t st')"
    using Some by (simp add: calc_active)
  consider (zi) "t < startTime r + transitionDuration r"
    | (ho) "startTime r + transitionDuration r \<le> t" "t < startTime r + duration r - transitionDuration r"
    | (zo) "startTime r + transitionDuration r \<le> t" "startTime r + duration r - transitionDuration r \<le> t"
    by linarith
  then show ?thesis
  proof cases
    case zi
    note e = regionTransform_zoomIn[OF conjunct1[OF ab] zi]
    from first obtain ip where ip:
      "panTarget D r metadata rg fd (startTime r + transitionDuration r) (zoomLevel r) = Inr ip"
      unfolding e by (auto dest: bindE_eq_Inr)
    have l: "lastPanUpdateTime st' = t" using first unfolding e ip by auto
    have nz: "\<not> zoomOutPhase t zoomRegions" using zi Some by (simp add: zoomOutPhase_def)
    show ?thesis
      using first nz unfolding second afterSeekTest_same[OF l] e ip by auto
  next
    case ho
    have nzi: "\<not> (startTime r \<le> t \<and> t < startTime r + transitionDuration r)" using ho by simp
    note e = regionTransform_hold[OF nzi ho]
    from first obtain lp where lp:
      "panTarget D r metadata rg fd t (zoomLevel r) = Inr lp"
      unfolding e by (auto dest: bindE_eq_Inr)
    have l: "lastPanUpdateTime st' = t" using first unfolding e lp by auto
    have nz: "\<not> zoomOutPhase t zoomRegions" using ho Some by (simp add: zoomOutPhase_def)
    show ?thesis
      using first nz unfolding second afterSeekTest_same[OF l] e lp by auto
  next
    case zo
    have nzi: "\<not> (startTime r \<le> t \<and> t < startTime r + transitionDuration r)" using zo by simp
    have nho: "\<not> (startTime r + transitionDuration r \<le> t \<and>
                  t < startTime r + duration r - transitionDuration r)" using zo by simp
    have td: "transitionDuration r \<noteq> 0" using zoomOut_td_pos[OF Some zo(2)] by simp
    have le: "t \<le> startTime r + duration r" using ab by simp
    note e = regionTransform_zoomOut[OF nzi nho zo(2) le td]
    from first obtain tg where tg:
      "zoomOutTarget D r metadata rg fd t (zoomOutProgress EM r t) = Inr tg"
      unfolding e by (auto dest: bindE_eq_Inr)
    have l: "lastPanUpdateTime st' = t" using first unfolding e tg by (cases tg) auto
    have z: "zoomOutPhase t zoomRegions" using zo Some by (simp add: zoomOutPhase_def)
    show ?thesis
      using first z Some tg unfolding second afterSeekTest_same[OF l] e by (cases tg) auto
  qed
qed


theorem second_call_same_time_witness:
  "calculateZoomTransform defaults0 easings0 2.5 [(''z1'', regionAuto)] samplesStill
       geom1080 geom1080 stateStale =
     Inr (\<lparr>scale = 2, translateX = 480, translateY = 270, transformOrigin = Percent 50 50\<rparr>,
          \<lparr>previousPanX = 480, previousPanY = 270, lastPanUpdateTime = 2.5\<rparr>) \<and>
   \<not> zoomOutPhase 2.5 [(''z1'', regionAuto)] \<and>
   calculateZoomTransform defaults0 easings0 2.5 [(''z1'', regionAuto)] samplesStill
       geom1080 geom1080 \<lparr>previousPanX = 480, previousPanY = 270, lastPanUpdateTime = 2.5\<rparr> =
     Inr (\<lparr>scale = 2, translateX = 480, translateY = 270, transformOrigin = Percent 50 50\<rparr>,
          \<lparr>previousPanX = 480, previousPanY = 270, lastPanUpdateTime = 2.5\<rparr>)"
proof -
  have first: "calculateZoomTransform defaults0 easings0 2.5 [(''z1'', regionAuto)] samplesStill
       geom1080 geom1080 stateStale =
     Inr (\<lparr>scale = 2, translateX = 480, translateY = 270, transformOrigin = Percent 50 50\<rparr>,
          \<lparr>previousPanX = 480, previousPanY = 270, lastPanUpdateTime = 2.5\<rparr>)"
    by (simp add: calculateZoomTransform_def findActiveRegion_def regionAuto_def regionFixed_def
        stateStale_def regionTransform_def Let_def getTransformOrigin_def smoothed_still
        samplesStill_ne geom1080_def calculateBoundedPan_Some PAN_SMOOTHING_FACTOR_def)
  have nz: "\<not> zoomOutPhase 2.5 [(''z1'', regionAuto)]"
    by (simp add: zoomOutPhase_def findActiveRegion_def regionAuto_def regionFixed_def)
  show ?thesis using second_call_same_time [OF first] first nz by auto
qed

text \<open>
  The claim as stated fails in the zoom-out phase: one frame after the previous call,
  halfway through the zoom-out of a fixed-mode region, the first call returns the pan
  \<open>(13.5, 27)\<close> and the second call, at the same time, \<open>(12.65625, 25.3125)\<close>.
\<close>

theorem second_call_differs_in_zoomOut:
  "calculateZoomTransform defaults0 easings0 3.75 [(''z1'', regionFixed)] [] geom1080 geom1080
       stateFrameBefore =
     Inr (\<lparr>scale = 1.5, translateX = 13.5, translateY = 27, transformOrigin = Percent 50 50\<rparr>,
          \<lparr>previousPanX = 13.5, previousPanY = 27, lastPanUpdateTime = 3.75\<rparr>) \<and>
   calculateZoomTransform defaults0 easings0 3.75 [(''z1'', regionFixed)] [] geom1080 geom1080
       \<lparr>previousPanX = 13.5, previousPanY = 27, lastPanUpdateTime = 3.75\<rparr> =
     Inr (\<lparr>scale = 1.5, translateX = 12.65625, translateY = 25.3125,
            transformOrigin = Percent 50 50\<rparr>,
          \<lparr>previousPanX = 12.65625, previousPanY = 25.3125, lastPanUpdateTime = 3.75\<rparr>) \<and>
   (13.5 :: real) \<noteq> 12.65625"
  by (simp add: calculateZoomTransform_def findActiveRegion_def regionFixed_def
      stateFrameBefore_def regionTransform_def Let_def getTransformOrigin_def easings0_def
      easingFn_def js_div_def lerp_def PAN_SMOOTHING_FACTOR_def power_divide)

section \<open>Degenerate geometry\<close>








lemma panTowardsZero_0 [simp]: "panTowardsZero EM r t l 0 = 0"
  by (simp add: panTowardsZero_def)









text \<open>
  A frame with one zero dimension only pans on the other axis: for a frame of width \<open>0\<close>
  and height \<open>1080\<close>, which \<^verbatim>\<open>renderer-gl.ts\<close> computes for a video of width \<open>0\<close> (the aspect
  ratio is \<open>0\<close>, the frame height the available height and the frame width its product with
  \<open>0\<close>), the returned pan is \<open>(0, 270)\<close>.
\<close>

lemma pan_on_the_other_axis:
  "calculateZoomTransform defaults0 easings0 2.5 [(''z1'', regionAuto)] samplesStill
       geom1080 geomNoWidth stateStale =
     Inr (\<lparr>scale = 2, translateX = 0, translateY = 270, transformOrigin = Percent 50 50\<rparr>,
          \<lparr>previousPanX = 0, previousPanY = 270, lastPanUpdateTime = 2.5\<rparr>)"
  by (simp add: calculateZoomTransform_def findActiveRegion_def regionAuto_def regionFixed_def
      stateStale_def regionTransform_def Let_def getTransformOrigin_def
      smoothed_still samplesStill_ne geom1080_def geomNoWidth_def calculateBoundedPan_Some
      PAN_SMOOTHING_FACTOR_def lerp_def)

section \<open>Zoom-in\<close>

text \<open>
  Claim C5, as amended.  During the zoom-in phase, in auto mode, with samples present and
  a recording of positive width, whenever the bounded pan of the smoothed cursor position
  at the zoom-in end time is defined (no division by zero), it is the pan target: the
  returned pan is \<open>lerp(0, targetPan, e)\<close> for the eased progress
  \<open>e = easing((t - startTime) / transitionDuration)\<close>, the scale is \<open>lerp(1, zoomLevel, e)\<close>,
  and after the call the carried pan is the returned pan.
\<close>

theorem zoomIn_pan_target:
  assumes "findActiveRegion t zoomRegions = Some r"
    and "t < startTime r + transitionDuration r"
    and "mode r = ''auto''" and "metadata \<noteq> []" and "0 < width rg"
    and "getSmoothedMousePosition D metadata (startTime r + transitionDuration r)
           (SMOOTHING_FACTOR D) (DEAD_ZONE D) = Inr mousePos"
    and "calculateBoundedPan mousePos (getTransformOrigin (targetX r) (targetY r)) (zoomLevel r)
           rg fd = Inr targetPan"
    and "e = easingFn EM (easing r) ((t - startTime r) / transitionDuration r)"
  shows "calculateZoomTransform D EM t zoomRegions metadata rg fd st =
           Inr (\<lparr>scale = lerp 1 (zoomLevel r) e,
                  translateX = lerp 0 (tx targetPan) e,
                  translateY = lerp 0 (ty targetPan) e,
                  transformOrigin = Percent ((targetX r + 0.5) * 100) ((targetY r + 0.5) * 100)\<rparr>,
                \<lparr>previousPanX = lerp 0 (tx targetPan) e,
                  previousPanY = lerp 0 (ty targetPan) e,
                  lastPanUpdateTime = t\<rparr>)"
proof -
  note ab = active_bounds[OF assms(1)]
  have g: "panGuard r metadata rg" using assms(3,4,5) by (simp add: panGuard_def)
  have sp: "smoothedPos D metadata (startTime r + transitionDuration r) = mousePos"
    using assms(6) by (simp add: smoothedPos_def)
  have pt: "panTarget D r metadata rg fd (startTime r + transitionDuration r) (zoomLevel r) = Inr targetPan"
    using g sp assms(7) by (simp add: panTarget_def fixedOriginOf_def)
  show ?thesis
    unfolding calc_active[OF assms(1)] regionTransform_zoomIn[OF conjunct1[OF ab] assms(2)] pt
    by (simp add: assms(8) originOf_def fixedOriginOf_def getTransformOrigin_def)
qed

theorem zoomIn_pan_target_witness:
  "findActiveRegion 1.25 [(''z1'', regionAuto)] = Some regionAuto \<and>
   getSmoothedMousePosition defaults0 samplesStill (startTime regionAuto + transitionDuration regionAuto)
           (SMOOTHING_FACTOR defaults0) (DEAD_ZONE defaults0) = Inr (Some \<lparr>px = 0, py = 0\<rparr>) \<and>
   calculateBoundedPan (Some \<lparr>px = 0, py = 0\<rparr>) centre 2 geom1080 geom1080 =
     Inr \<lparr>tx = 480, ty = 270\<rparr> \<and>
   calculateZoomTransform defaults0 easings0 1.25 [(''z1'', regionAuto)] samplesStill
       geom1080 geom1080 stateStale =
     Inr (\<lparr>scale = 1.5, translateX = 240, translateY = 135, transformOrigin = Percent 50 50\<rparr>,
          \<lparr>previousPanX = 240, previousPanY = 135, lastPanUpdateTime = 1.25\<rparr>)"
proof -
  have a: "findActiveRegion 1.25 [(''z1'', regionAuto)] = Some regionAuto"
    by (simp add: findActiveRegion_def regionAuto_def regionFixed_def)
  have b: "getSmoothedMousePosition defaults0 samplesStill
      (startTime regionAuto + transitionDuration regionAuto)
      (SMOOTHING_FACTOR defaults0) (DEAD_ZONE defaults0) = Inr (Some \<lparr>px = 0, py = 0\<rparr>)"
    by (simp add: smoothed_still regionAuto_def regionFixed_def)
  have c: "calculateBoundedPan (Some \<lparr>px = 0, py = 0\<rparr>)
      (getTransformOrigin (targetX regionAuto) (targetY regionAuto)) (zoomLevel regionAuto)
      geom1080 geom1080 = Inr \<lparr>tx = 480, ty = 270\<rparr>"
    by (simp add: calculateBoundedPan_Some geom1080_def getTransformOrigin_def regionAuto_def
        regionFixed_def)
  have c': "calculateBoundedPan (Some \<lparr>px = 0, py = 0\<rparr>) centre 2 geom1080 geom1080 =
     Inr \<lparr>tx = 480, ty = 270\<rparr>"
    by (simp add: calculateBoundedPan_Some geom1080_def centre_def)
  have d: "easingFn easings0 (easing regionAuto)
      ((1.25 - startTime regionAuto) / transitionDuration regionAuto) = 0.5"
    by (simp add: easingFn_def easings0_def regionAuto_def regionFixed_def)
  show ?thesis
    using zoomIn_pan_target [where st = stateStale, OF a _ _ samplesStill_ne _ b c d[symmetric]]
      a b c'
    by (simp add: regionAuto_def regionFixed_def geom1080_def lerp_def)
qed

text \<open>
  The claim as stated, without the condition on the recording width, fails: for a
  recording of width \<open>-1920\<close> the bounded pan of the smoothed position at the zoom-in end
  is \<open>(480, 270)\<close>, the eased progress is \<open>0.5\<close>, and the returned pan is \<open>(0, 0)\<close>, not
  \<open>(240, 135)\<close>: the engine's geometry test sets the pan target to zero.
\<close>

theorem zoomIn_pan_target_needs_recording_width:
  "findActiveRegion 1.25 [(''z1'', regionAuto)] = Some regionAuto \<and>
   getSmoothedMousePosition defaults0 samplesStill 1.5
           (SMOOTHING_FACTOR defaults0) (DEAD_ZONE defaults0) = Inr (Some \<lparr>px = 0, py = 0\<rparr>) \<and>
   calculateBoundedPan (Some \<lparr>px = 0, py = 0\<rparr>) centre 2 geomNegWidth geom1080 =
     Inr \<lparr>tx = 480, ty = 270\<rparr> \<and>
   easingFn easings0 ''Linear'' ((1.25 - 1) / 0.5) = 0.5 \<and>
   lerp 0 480 0.5 = 240 \<and>
   calculateZoomTransform defaults0 easings0 1.25 [(''z1'', regionAuto)] samplesStill
       geomNegWidth geom1080 stateStale =
     Inr (\<lparr>scale = 1.5, translateX = 0, translateY = 0, transformOrigin = Percent 50 50\<rparr>,
          \<lparr>previousPanX = 0, previousPanY = 0, lastPanUpdateTime = 1.25\<rparr>)"
  by (simp add: calculateZoomTransform_def findActiveRegion_def regionAuto_def regionFixed_def
      stateStale_def regionTransform_def Let_def getTransformOrigin_def smoothed_still
      samplesStill_ne geom1080_def geomNegWidth_def calculateBoundedPan_Some centre_def
      easingFn_def easings0_def js_div_def lerp_def)

section \<open>Zoom-out\<close>

text \<open>
  Claim C6, as amended.  During the zoom-out phase, in auto mode, with samples and a
  recording of positive width, the pan target is the bounded pan of the smoothed cursor
  position at \<open>t\<close>, computed for the current scale \<open>lerp(zoomLevel, 1, e)\<close> (whenever that
  pan is defined), multiplied by a cursor-influence factor that is \<open>1 - e / 0.05\<close> when
  \<open>e \<le> 0.05\<close> and \<open>0\<close> otherwise, where \<open>e\<close> is the eased progress: the easing applied to
  \<open>(t - zoomOutStart) / transitionDuration\<close>.  The returned pan is the carried pan moved
  towards that target by the smoothing factor blended with \<open>e\<^sup>4\<close>.
\<close>

theorem zoomOut_pan_target:
  assumes "findActiveRegion t zoomRegions = Some r"
    and "startTime r + transitionDuration r \<le> t"
    and "startTime r + duration r - transitionDuration r \<le> t"
    and "mode r = ''auto''" and "metadata \<noteq> []" and "0 < width rg"
    and "e = easingFn EM (easing r)
               ((t - (startTime r + duration r - transitionDuration r)) / transitionDuration r)"
    and "getSmoothedMousePosition D metadata t (SMOOTHING_FACTOR D) (DEAD_ZONE D) = Inr mousePos"
    and "calculateBoundedPan mousePos (getTransformOrigin (targetX r) (targetY r))
           (lerp (zoomLevel r) 1 e) rg fd = Inr livePan"
    and "influence = (if e \<le> 0.05 then 1 - e / 0.05 else 0)"
    and "alpha = lerp (safeAlphaOf t (lastPanUpdateTime st)) 1 (e ^ 4)"
  shows "calculateZoomTransform D EM t zoomRegions metadata rg fd st =
           Inr (\<lparr>scale = lerp (zoomLevel r) 1 e,
                  translateX = lerp (previousPanX (afterSeekTest t st)) (tx livePan * influence) alpha,
                  translateY = lerp (previousPanY (afterSeekTest t st)) (ty livePan * influence) alpha,
                  transformOrigin = Percent ((targetX r + 0.5) * 100) ((targetY r + 0.5) * 100)\<rparr>,
                \<lparr>previousPanX = lerp (previousPanX (afterSeekTest t st)) (tx livePan * influence) alpha,
                  previousPanY = lerp (previousPanY (afterSeekTest t st)) (ty livePan * influence) alpha,
                  lastPanUpdateTime = t\<rparr>)"
proof -
  note ab = active_bounds[OF assms(1)]
  have nzi: "\<not> (startTime r \<le> t \<and> t < startTime r + transitionDuration r)" using assms(2) by simp
  have nho: "\<not> (startTime r + transitionDuration r \<le> t \<and>
                t < startTime r + duration r - transitionDuration r)" using assms(3) by simp
  have td: "transitionDuration r \<noteq> 0" using zoomOut_td_pos[OF assms(1,3)] by simp
  have le: "t \<le> startTime r + duration r" using ab by simp
  have g: "panGuard r metadata rg" using assms(4,5,6) by (simp add: panGuard_def)
  have sp: "smoothedPos D metadata t = mousePos"
    using assms(8) by (simp add: smoothedPos_def)
  have ze: "zoomOutProgress EM r t = e" by (simp add: zoomOutProgress_def assms(7))
  have zt: "zoomOutTarget D r metadata rg fd t e = Inr (tx livePan * influence, ty livePan * influence)"
    using g sp assms(9) by (simp add: zoomOutTarget_def fixedOriginOf_def cursorInfluenceOf_def assms(10))
  show ?thesis
    unfolding calc_active[OF assms(1)] regionTransform_zoomOut[OF nzi nho assms(3) le td] ze zt
    by (simp add: assms(11) originOf_def fixedOriginOf_def getTransformOrigin_def fluidAlphaOf_def)
qed


theorem zoomOut_pan_target_witness:
  "findActiveRegion 3.55 [(''z1'', regionEaseIn)] = Some regionEaseIn \<and>
   easingFn easings0 (easing regionEaseIn) ((3.55 - (1 + 3 - 0.5)) / 0.5) = 0.01 \<and>
   getSmoothedMousePosition defaults0 samplesStill 3.55 (SMOOTHING_FACTOR defaults0)
     (DEAD_ZONE defaults0) = Inr (Some \<lparr>px = 0, py = 0\<rparr>) \<and>
   calculateBoundedPan (Some \<lparr>px = 0, py = 0\<rparr>) centre (lerp 2 1 0.01) geom1080 geom1080 =
     Inr \<lparr>tx = 95040 / 199, ty = 53460 / 199\<rparr> \<and>
   calculateZoomTransform defaults0 easings0 3.55 [(''z1'', regionEaseIn)] samplesStill
       geom1080 geom1080 stateNear =
     Inr (\<lparr>scale = 1.99, translateX = 95040 / 199 * 0.8, translateY = 53460 / 199 * 0.8,
            transformOrigin = Percent 50 50\<rparr>,
          \<lparr>previousPanX = 95040 / 199 * 0.8, previousPanY = 53460 / 199 * 0.8,
            lastPanUpdateTime = 3.55\<rparr>)"
proof -
  have a: "findActiveRegion 3.55 [(''z1'', regionEaseIn)] = Some regionEaseIn"
    by (simp add: findActiveRegion_def regionEaseIn_def regionAuto_def regionFixed_def)
  have h2: "startTime regionEaseIn + transitionDuration regionEaseIn \<le> 3.55"
    and h3: "startTime regionEaseIn + duration regionEaseIn - transitionDuration regionEaseIn \<le> 3.55"
    and h4: "mode regionEaseIn = ''auto''"
    and h6: "0 < width geom1080"
    by (simp_all add: regionEaseIn_def regionAuto_def regionFixed_def geom1080_def)
  have e: "easingFn easings0 (easing regionEaseIn)
      ((3.55 - (startTime regionEaseIn + duration regionEaseIn - transitionDuration regionEaseIn))
        / transitionDuration regionEaseIn) = 0.01"
    by (simp add: easingFn_def easings0_def regionEaseIn_def regionAuto_def regionFixed_def)
  have b: "getSmoothedMousePosition defaults0 samplesStill 3.55 (SMOOTHING_FACTOR defaults0)
     (DEAD_ZONE defaults0) = Inr (Some \<lparr>px = 0, py = 0\<rparr>)"
    by (simp add: smoothed_still)
  have c: "calculateBoundedPan (Some \<lparr>px = 0, py = 0\<rparr>)
      (getTransformOrigin (targetX regionEaseIn) (targetY regionEaseIn))
      (lerp (zoomLevel regionEaseIn) 1 0.01) geom1080 geom1080 =
     Inr \<lparr>tx = 95040 / 199, ty = 53460 / 199\<rparr>"
    by (simp add: calculateBoundedPan_Some geom1080_def getTransformOrigin_def regionEaseIn_def
        regionAuto_def regionFixed_def lerp_def)
  have c': "calculateBoundedPan (Some \<lparr>px = 0, py = 0\<rparr>) centre (lerp 2 1 0.01) geom1080 geom1080 =
     Inr \<lparr>tx = 95040 / 199, ty = 53460 / 199\<rparr>"
    by (simp add: calculateBoundedPan_Some geom1080_def centre_def lerp_def)
  have e': "easingFn easings0 (easing regionEaseIn) ((3.55 - (1 + 3 - 0.5)) / 0.5) = 0.01"
    by (simp add: easingFn_def easings0_def regionEaseIn_def regionAuto_def regionFixed_def)
  have al: "lerp (safeAlphaOf 3.55 (lastPanUpdateTime stateNear)) 1 (0.01 ^ 4) = 1"
    by (simp add: safeAlphaOf_def stateNear_def PAN_SMOOTHING_FACTOR_def lerp_def)
  have s: "afterSeekTest 3.55 stateNear = stateNear"
    by (simp add: afterSeekTest_def stateNear_def)
  show ?thesis
    using zoomOut_pan_target [where st = stateNear, OF a h2 h3 h4 samplesStill_ne h6 e[symmetric]
        b c refl al[symmetric]]
      a b c' e'
    by (simp add: s stateNear_def regionEaseIn_def regionAuto_def regionFixed_def lerp_def)
qed

text \<open>
  The claim as stated, with the factor taken from the raw progress, fails: under a
  quadratic ease-in, at raw progress \<open>0.1\<close> the factor of the claim is \<open>0\<close> and the pan
  target would be \<open>(0, 0)\<close>; the eased progress is \<open>0.01\<close>, the factor of the code is
  \<open>0.8\<close>, and with a smoothing factor of \<open>1\<close> the returned pan is \<open>0.8\<close> times the
  bounded pan.
\<close>

theorem influence_uses_eased_progress:
  "(3.55 - (1 + 3 - 0.5)) / 0.5 = (0.1 :: real) \<and>
   cursorInfluenceOf 0.1 = 0 \<and>
   easingFn easings0 ''EaseIn'' 0.1 = 0.01 \<and>
   cursorInfluenceOf 0.01 = 0.8 \<and>
   calculateBoundedPan (Some \<lparr>px = 0, py = 0\<rparr>) centre (lerp 2 1 0.01) geom1080 geom1080 =
     Inr \<lparr>tx = 95040 / 199, ty = 53460 / 199\<rparr> \<and>
   calculateZoomTransform defaults0 easings0 3.55 [(''z1'', regionEaseIn)] samplesStill
       geom1080 geom1080 stateNear =
     Inr (\<lparr>scale = 1.99, translateX = 76032 / 199, translateY = 42768 / 199,
            transformOrigin = Percent 50 50\<rparr>,
          \<lparr>previousPanX = 76032 / 199, previousPanY = 42768 / 199, lastPanUpdateTime = 3.55\<rparr>)"
  by (simp add: calculateZoomTransform_def findActiveRegion_def regionEaseIn_def regionAuto_def
      regionFixed_def stateNear_def regionTransform_def Let_def getTransformOrigin_def
      smoothed_still samplesStill_ne geom1080_def calculateBoundedPan_Some centre_def
      cursorInfluenceOf_def easingFn_def easings0_def js_div_def lerp_def
      PAN_SMOOTHING_FACTOR_def power_divide)

subsection \<open>The blend of the smoothing factor and the end of the zoom-out\<close>


lemma cursorInfluenceOf_1 [simp]: "cursorInfluenceOf 1 = 0"
  by (simp add: cursorInfluenceOf_def)










end
